theory Spec2Isabelle
  imports Complex_Main
begin

section \<open>Numbers, clock and randomness\<close>

text \<open>
  The engine (\<^verbatim>\<open>src/js/systems/movers.js\<close>, and \<^verbatim>\<open>shoot\<close> in
  \<^verbatim>\<open>src/js/main.js\<close>) computes on JavaScript numbers.  They are modelled as \<open>real\<close>;
  hit counts and the configured mover count, which the source truncates with \<^verbatim>\<open>| 0\<close>, are
  \<open>int\<close>.  Non-finite values are modelled where they decide whether a call throws (the
  heat-map cell of an anchor, \<open>cellIndex\<close>); elsewhere they are outside the model, and the
  theorems about results that divide by an arena dimension assume the arena is larger than
  the margin.

  \<^verbatim>\<open>Math.random()\<close> is a stream \<open>rnd\<close> of draws, read at an index that every draw
  advances; \<^verbatim>\<open>nowMs()\<close> is an argument \<open>tNow\<close> of each exported operation.
\<close>

type_synonym rng = "nat \<Rightarrow> real"

definition rng_ok :: "rng \<Rightarrow> bool" where
  "rng_ok rnd = (\<forall>n. 0 \<le> rnd n \<and> rnd n < 1)"

definition clamp :: "real \<Rightarrow> real \<Rightarrow> real \<Rightarrow> real" where
  "clamp v a b = max a (min b v)"

definition rand :: "rng \<Rightarrow> nat \<Rightarrow> real \<Rightarrow> real \<Rightarrow> real" where
  "rand rnd k a b = a + rnd k * (b - a)"

definition hypot :: "real \<Rightarrow> real \<Rightarrow> real" where
  "hypot a b = sqrt (a * a + b * b)"

definition toInt32 :: "int \<Rightarrow> int" where
  "toInt32 h = (h + 2 ^ 31) mod 2 ^ 32 - 2 ^ 31"

definition worldToScreen :: "real \<Rightarrow> real \<Rightarrow> real \<Rightarrow> real \<Rightarrow> real \<times> real" where
  "worldToScreen dx dy cs sn = (dx * cs - dy * sn, dx * sn + dy * cs)"

definition screenToWorld :: "real \<Rightarrow> real \<Rightarrow> real \<Rightarrow> real \<Rightarrow> real \<times> real" where
  "screenToWorld sx sy cs sn = (sx * cs + sy * sn, - sx * sn + sy * cs)"

section \<open>Configuration constants\<close>

definition MARGIN :: real where "MARGIN = 140"
definition MOVERS_MAX_HITS :: int where "MOVERS_MAX_HITS = 3"
definition HEAL_INTERVAL_MS :: real where "HEAL_INTERVAL_MS = 4000"
definition EPISODE_MAX_COUNT :: int where "EPISODE_MAX_COUNT = 2"
definition ROLE_MAX_COUNT :: int where "ROLE_MAX_COUNT = 2"
definition HEAT_COLS :: nat where "HEAT_COLS = 16"
definition HEAT_ROWS :: nat where "HEAT_ROWS = 9"
definition HEATMAP_DECAY :: real where "HEATMAP_DECAY = 98 / 100"
definition HEATMAP_INCREMENT :: real where "HEATMAP_INCREMENT = 1"
definition MICRO_MIN_MS :: real where "MICRO_MIN_MS = 2500"
definition MICRO_MAX_MS :: real where "MICRO_MAX_MS = 5000"
definition MICRO_BLEND_MS :: real where "MICRO_BLEND_MS = 600"
definition CROSSHAIR_FLASH_MS :: real where "CROSSHAIR_FLASH_MS = 90"
definition MISS_FLASH_MS :: real where "MISS_FLASH_MS = 140"

section \<open>Roles, episodes, patterns and tiers\<close>

datatype role = Runner | Dancer | Trickster | Kiter
datatype episode = Explore | Perform | Evade | Kite
datatype pattern =
  figure8 | figure8Wide | figure8Spiral | spiral | spiralBurst | rosette | swerveStop
datatype tier = S | M | L

definition MICRO_PATTERN_NAMES :: "pattern list" where
  "MICRO_PATTERN_NAMES =
     [figure8, figure8Wide, figure8Spiral, spiral, spiralBurst, rosette, swerveStop]"

definition MICRO_TIERS :: "tier list" where
  "MICRO_TIERS = [S, M, L, M, S]"

fun TIER_SCALE :: "tier \<Rightarrow> real" where
  "TIER_SCALE S = 15 / 100"
| "TIER_SCALE M = 35 / 100"
| "TIER_SCALE L = 60 / 100"

fun SPIRAL_SCALE :: "tier \<Rightarrow> real" where
  "SPIRAL_SCALE S = 25 / 100"
| "SPIRAL_SCALE M = 50 / 100"
| "SPIRAL_SCALE L = 75 / 100"

text \<open>\<^verbatim>\<open>MICRO_TIERS.indexOf(tier)\<close>.\<close>

fun tierIndexOf :: "tier \<Rightarrow> nat" where
  "tierIndexOf S = 0"
| "tierIndexOf M = 1"
| "tierIndexOf L = 2"

text \<open>\<^verbatim>\<open>name.startsWith('figure8')\<close> and \<^verbatim>\<open>name.includes('spiral')\<close>.\<close>

fun startsWithFigure8 :: "pattern \<Rightarrow> bool" where
  "startsWithFigure8 figure8 = True"
| "startsWithFigure8 figure8Wide = True"
| "startsWithFigure8 figure8Spiral = True"
| "startsWithFigure8 _ = False"

fun includesSpiral :: "pattern \<Rightarrow> bool" where
  "includesSpiral spiral = True"
| "includesSpiral spiralBurst = True"
| "includesSpiral _ = False"

text \<open>
  The tables \<^verbatim>\<open>ROLES\<close> and \<^verbatim>\<open>EPISODES\<close>.  A pattern a role does not list has no
  weight (\<open>None\<close>); the source reads it with \<^verbatim>\<open>weights[name] || 1\<close>, which is \<open>orOne\<close>.
\<close>

fun roleAnchorBias :: "role \<Rightarrow> real" where
  "roleAnchorBias Runner = 7 / 10"
| "roleAnchorBias Dancer = - (2 / 10)"
| "roleAnchorBias Trickster = 0"
| "roleAnchorBias Kiter = 5 / 10"

fun rolePatternWeights :: "role \<Rightarrow> pattern \<Rightarrow> real option" where
  "rolePatternWeights Runner spiral = Some 2"
| "rolePatternWeights Runner spiralBurst = Some (15 / 10)"
| "rolePatternWeights Runner figure8 = Some 1"
| "rolePatternWeights Runner figure8Wide = Some (5 / 10)"
| "rolePatternWeights Runner figure8Spiral = Some (5 / 10)"
| "rolePatternWeights Dancer figure8 = Some 2"
| "rolePatternWeights Dancer figure8Wide = Some (15 / 10)"
| "rolePatternWeights Dancer figure8Spiral = Some (12 / 10)"
| "rolePatternWeights Dancer spiral = Some (5 / 10)"
| "rolePatternWeights Dancer spiralBurst = Some (5 / 10)"
| "rolePatternWeights Trickster figure8Wide = Some 2"
| "rolePatternWeights Trickster figure8Spiral = Some 2"
| "rolePatternWeights Trickster spiralBurst = Some 1"
| "rolePatternWeights Trickster spiral = Some (8 / 10)"
| "rolePatternWeights Trickster figure8 = Some (8 / 10)"
| "rolePatternWeights Kiter spiral = Some (18 / 10)"
| "rolePatternWeights Kiter spiralBurst = Some (18 / 10)"
| "rolePatternWeights Kiter figure8 = Some 1"
| "rolePatternWeights Kiter figure8Wide = Some (5 / 10)"
| "rolePatternWeights Kiter figure8Spiral = Some (5 / 10)"
| "rolePatternWeights _ _ = None"

fun roleTierWeights :: "role \<Rightarrow> tier \<Rightarrow> real" where
  "roleTierWeights Runner S = 1"
| "roleTierWeights Runner M = 15 / 10"
| "roleTierWeights Runner L = 2"
| "roleTierWeights Dancer S = 15 / 10"
| "roleTierWeights Dancer M = 1"
| "roleTierWeights Dancer L = 8 / 10"
| "roleTierWeights Trickster _ = 1"
| "roleTierWeights Kiter S = 8 / 10"
| "roleTierWeights Kiter M = 12 / 10"
| "roleTierWeights Kiter L = 18 / 10"

fun episodeAnchorBias :: "episode \<Rightarrow> real" where
  "episodeAnchorBias Explore = 2 / 10"
| "episodeAnchorBias Perform = 0"
| "episodeAnchorBias Evade = 6 / 10"
| "episodeAnchorBias Kite = 8 / 10"

fun episodePatternWeights :: "episode \<Rightarrow> pattern \<Rightarrow> real option" where
  "episodePatternWeights Explore figure8 = Some 1"
| "episodePatternWeights Explore figure8Wide = Some 1"
| "episodePatternWeights Explore figure8Spiral = Some (7 / 10)"
| "episodePatternWeights Explore spiral = Some (6 / 10)"
| "episodePatternWeights Explore spiralBurst = Some (5 / 10)"
| "episodePatternWeights Explore rosette = Some (8 / 10)"
| "episodePatternWeights Explore swerveStop = Some (8 / 10)"
| "episodePatternWeights Perform figure8 = Some 2"
| "episodePatternWeights Perform figure8Wide = Some (15 / 10)"
| "episodePatternWeights Perform figure8Spiral = Some (12 / 10)"
| "episodePatternWeights Perform spiral = Some (12 / 10)"
| "episodePatternWeights Perform spiralBurst = Some 1"
| "episodePatternWeights Perform rosette = Some (7 / 10)"
| "episodePatternWeights Perform swerveStop = Some (5 / 10)"
| "episodePatternWeights Evade figure8 = Some (7 / 10)"
| "episodePatternWeights Evade figure8Wide = Some (7 / 10)"
| "episodePatternWeights Evade figure8Spiral = Some (8 / 10)"
| "episodePatternWeights Evade spiral = Some (6 / 10)"
| "episodePatternWeights Evade spiralBurst = Some (8 / 10)"
| "episodePatternWeights Evade rosette = Some 1"
| "episodePatternWeights Evade swerveStop = Some (15 / 10)"
| "episodePatternWeights Kite figure8 = Some (8 / 10)"
| "episodePatternWeights Kite figure8Wide = Some (6 / 10)"
| "episodePatternWeights Kite figure8Spiral = Some (7 / 10)"
| "episodePatternWeights Kite spiral = Some (15 / 10)"
| "episodePatternWeights Kite spiralBurst = Some (13 / 10)"
| "episodePatternWeights Kite rosette = Some (12 / 10)"
| "episodePatternWeights Kite swerveStop = Some (6 / 10)"

fun episodeTierWeights :: "episode \<Rightarrow> tier \<Rightarrow> real" where
  "episodeTierWeights Explore S = 12 / 10"
| "episodeTierWeights Explore M = 1"
| "episodeTierWeights Explore L = 8 / 10"
| "episodeTierWeights Perform S = 8 / 10"
| "episodeTierWeights Perform M = 12 / 10"
| "episodeTierWeights Perform L = 16 / 10"
| "episodeTierWeights Evade S = 16 / 10"
| "episodeTierWeights Evade M = 1"
| "episodeTierWeights Evade L = 7 / 10"
| "episodeTierWeights Kite S = 9 / 10"
| "episodeTierWeights Kite M = 11 / 10"
| "episodeTierWeights Kite L = 14 / 10"

fun macroSpeed :: "episode \<Rightarrow> real" where
  "macroSpeed Explore = 11 / 10"
| "macroSpeed Perform = 7 / 10"
| "macroSpeed Evade = 14 / 10"
| "macroSpeed Kite = 1"

definition orOne :: "real option \<Rightarrow> real" where
  "orOne w = (case w of None \<Rightarrow> 1 | Some v \<Rightarrow> if v = 0 then 1 else v)"

section \<open>Data model\<close>

text \<open>
  A mover is one JavaScript object, reused in place.  The record has the fields the current
  implementation reads or writes, under the source's names; the world position and radius
  \<^verbatim>\<open>x\<close>, \<^verbatim>\<open>y\<close>, \<^verbatim>\<open>r\<close> are \<open>mvX\<close>, \<open>mvY\<close>, \<open>mvR\<close>.  Fields that only the
  superseded code after the early \<^verbatim>\<open>return\<close> of \<^verbatim>\<open>updateMovers\<close> reads (\<^verbatim>\<open>originX\<close>,
  \<^verbatim>\<open>originY\<close>, \<^verbatim>\<open>t0\<close>, \<^verbatim>\<open>pattern\<close>, \<^verbatim>\<open>nextPatternSwitch\<close>, \<^verbatim>\<open>anchorSx\<close>,
  \<^verbatim>\<open>anchorSy\<close>, \<^verbatim>\<open>anchorExpires\<close>, \<^verbatim>\<open>deadStart\<close>, \<^verbatim>\<open>microType\<close>) are left out; the
  random draws that initialise them are still consumed.  The three fields that exist only
  once \<^verbatim>\<open>updateMovers\<close> has written them are options.
\<close>

record dna =
  wBase :: real
  microGainMin :: real
  microGainMax :: real
  feintChance :: real

record mover =
  mvX :: real
  mvY :: real
  vx :: real
  vy :: real
  mvR :: real
  p1 :: real
  p2 :: real
  hitUntil :: real
  hits :: int
  escapeBoost :: real
  lastHitTime :: real
  dead :: bool
  microPattern :: pattern
  microTier :: tier
  microTierIndex :: nat
  microStart :: real
  microDuration :: real
  microBlendStart :: real
  microNextSwitch :: real
  prevOffset :: "real \<times> real"
  microGain :: real
  nonFigureCount :: nat
  fleeSide :: real
  role :: role
  roleExpires :: real
  episode :: episode
  episodeExpires :: real
  dna :: dna
  wCurrent :: real
  anchorPosSx :: real
  anchorPosSy :: real
  anchorTargetSx :: real
  anchorTargetSy :: real
  anchorVelSx :: real
  anchorVelSy :: real
  anchorMoveStart :: real
  anchorMoveDuration :: real
  anchorMoveEnd :: real
  frameAngle :: real
  frameRate :: real
  amPhase :: real
  fmPhase :: real
  microGainEff :: "real option"
  phaseFlipUntil :: "real option"
  zigZagUntil :: "real option"

text \<open>A stationary target of \<^verbatim>\<open>state.targets\<close>: \<^verbatim>\<open>{ x, y, r, hitStart, dead }\<close>.\<close>

record target =
  tgX :: real
  tgY :: real
  tgR :: real
  tgHitStart :: real
  tgDead :: bool

text \<open>The mover-related entries of \<^verbatim>\<open>CFG\<close>.\<close>

record config =
  moversEnabled :: bool
  moversCount :: int
  moversSpeed :: real
  moversAvoid :: real
  moversR :: real
  moversFlee :: bool
  moversHit1Boost :: real
  moversHit2Boost :: real
  regenOnHit :: bool

record canvas =
  width :: real
  height :: real

text \<open>
  The process-wide state: \<^verbatim>\<open>CFG\<close>, the exports of \<^verbatim>\<open>state.js\<close> the engine uses, and
  the module variables \<^verbatim>\<open>heatMap\<close>, \<^verbatim>\<open>roleCounts\<close>, \<^verbatim>\<open>episodeCounts\<close> of
  \<^verbatim>\<open>movers.js\<close>.  \<^verbatim>\<open>state.canvas\<close> is \<^verbatim>\<open>null\<close> until \<^verbatim>\<open>initDomRefs\<close> has run: an
  option.  The count tables are objects that \<^verbatim>\<open>pickRole\<close> and \<^verbatim>\<open>pickEpisode\<close> fill
  with a 0 for every category, in table order, before they read them, and every other
  access follows a spawn: a total function, 0 where the key is still missing.
\<close>

record state =
  cfg :: config
  movers :: "mover list"
  targets :: "target list"
  playerX :: real
  playerY :: real
  rollAngle :: real
  canvas :: "canvas option"
  heatMap :: "real list list"
  roleCounts :: "role \<Rightarrow> int"
  episodeCounts :: "episode \<Rightarrow> int"
  rngIx :: nat

datatype error = TypeError

section \<open>Role and episode pools\<close>

definition ROLE_NAMES :: "role list" where
  "ROLE_NAMES = [Runner, Dancer, Trickster, Kiter]"

definition EPISODE_NAMES :: "episode list" where
  "EPISODE_NAMES = [Explore, Perform, Evade, Kite]"

text \<open>
  The fallback loop of \<^verbatim>\<open>pickRole\<close> and \<^verbatim>\<open>pickEpisode\<close>: the first entry whose count
  is strictly below the running minimum, which starts at \<^verbatim>\<open>Infinity\<close> (\<open>None\<close>).
\<close>

fun leastCount :: "('a \<Rightarrow> int) \<Rightarrow> 'a list \<Rightarrow> int option \<Rightarrow> 'a \<Rightarrow> 'a" where
  "leastCount counts [] mn chosen = chosen"
| "leastCount counts (n # ns) mn chosen =
     (if (case mn of None \<Rightarrow> True | Some v \<Rightarrow> counts n < v)
      then leastCount counts ns (Some (counts n)) n
      else leastCount counts ns mn chosen)"

text \<open>
  \<^verbatim>\<open>pickRole\<close> and \<^verbatim>\<open>pickEpisode\<close> are the same code over their own table and counter:
  choose uniformly among the categories under the cap, or the least-counted one when all
  are at the cap, and increment the chosen counter.  The result is the category, the
  counters and the next random index (a draw happens only in the first branch).
\<close>

definition pickCategory ::
  "'a list \<Rightarrow> int \<Rightarrow> rng \<Rightarrow> ('a \<Rightarrow> int) \<Rightarrow> nat \<Rightarrow> 'a \<times> ('a \<Rightarrow> int) \<times> nat" where
  "pickCategory names cap rnd counts k =
     (let candidates = filter (\<lambda>n. counts n < cap) names
      in if candidates \<noteq> []
         then (let idx = nat \<lfloor>rnd k * real (length candidates)\<rfloor>;
                   chosen = candidates ! idx
               in (chosen, counts(chosen := counts chosen + 1), k + 1))
         else (let chosen = leastCount counts names None (hd names)
               in (chosen, counts(chosen := counts chosen + 1), k)))"

definition pickRole :: "rng \<Rightarrow> (role \<Rightarrow> int) \<Rightarrow> nat \<Rightarrow> role \<times> (role \<Rightarrow> int) \<times> nat" where
  "pickRole = pickCategory ROLE_NAMES ROLE_MAX_COUNT"

definition pickEpisode ::
  "rng \<Rightarrow> (episode \<Rightarrow> int) \<Rightarrow> nat \<Rightarrow> episode \<times> (episode \<Rightarrow> int) \<times> nat" where
  "pickEpisode = pickCategory EPISODE_NAMES EPISODE_MAX_COUNT"

section \<open>Spawning and respawning\<close>

text \<open>
  The weighted draws: \<open>rp\<close> is \<^verbatim>\<open>Math.random() * sum\<close>; the result is the first index
  whose cumulative weight reaches \<open>rp\<close>, and index 0 when none does.
\<close>

fun firstWithin :: "real \<Rightarrow> real list \<Rightarrow> real \<Rightarrow> nat \<Rightarrow> nat option" where
  "firstWithin rp [] acc i = None"
| "firstWithin rp (w # ws) acc i =
     (if rp \<le> acc + w then Some i else firstWithin rp ws (acc + w) (i + 1))"

definition pickCumulative :: "real \<Rightarrow> real list \<Rightarrow> nat" where
  "pickCumulative u ws =
     (case firstWithin (u * sum_list ws) ws 0 0 of None \<Rightarrow> 0 | Some i \<Rightarrow> i)"

text \<open>
  The placement loop of \<^verbatim>\<open>spawnMoverInWindow\<close>: at most 30 tries of two draws each,
  stopping at the first point at least 90 px from the centre; the last try is kept
  otherwise.
\<close>

fun spawnPosition ::
  "rng \<Rightarrow> real \<Rightarrow> real \<Rightarrow> real \<Rightarrow> nat \<Rightarrow> nat \<Rightarrow> real \<times> real \<times> nat" where
  "spawnPosition rnd limX limY r 0 k = (0, 0, k)"
| "spawnPosition rnd limX limY r (Suc n) k =
     (let sx = rand rnd k (- limX + r) (limX - r);
          sy = rand rnd (k + 1) (- limY + r) (limY - r)
      in if hypot sx sy \<ge> 90 \<or> n = 0 then (sx, sy, k + 2)
         else spawnPosition rnd limX limY r n (k + 2))"

text \<open>
  \<^verbatim>\<open>spawnMoverInWindow\<close>.  Reading \<^verbatim>\<open>canvas.width\<close> of a \<^verbatim>\<open>null\<close> canvas throws.  The
  draws are consumed in the order the source evaluates them; \<open>k2\<close> is the draw of the
  unused \<^verbatim>\<open>pattern\<close> and \<open>k6 + 2\<close> that of \<^verbatim>\<open>nextPatternSwitch\<close>.
\<close>

definition spawnMoverInWindow :: "rng \<Rightarrow> real \<Rightarrow> state \<Rightarrow> error + (mover \<times> state)" where
  "spawnMoverInWindow rnd tNow s =
     (case canvas s of
        None \<Rightarrow> Inl TypeError
      | Some cv \<Rightarrow>
          (let limX = width cv / 2 - MARGIN;
               limY = height cv / 2 - MARGIN;
               cs = cos (rollAngle s);
               sn = sin (rollAngle s);
               r = clamp (moversR (cfg s)) 4 (min limX limY);
               (sx, sy, k1) = spawnPosition rnd limX limY r 30 (rngIx s);
               w = screenToWorld sx sy cs sn;
               svx0 = rand rnd k1 (- 1) 1;
               svy0 = rand rnd (k1 + 1) (- 1) 1;
               sp = (if hypot svx0 svy0 = 0 then 1 else hypot svx0 svy0);
               vw = screenToWorld (svx0 / sp) (svy0 / sp) cs sn;
               k2 = k1 + 2;
               (rl, rc, k4) = pickRole rnd (roleCounts s) (k2 + 1);
               (ep, ec, k5) = pickEpisode rnd (episodeCounts s) k4;
               d = \<lparr> wBase = rand rnd k5 1 (22 / 10),
                     microGainMin = rand rnd (k5 + 1) (6 / 10) (12 / 10),
                     microGainMax = rand rnd (k5 + 2) (12 / 10) (18 / 10),
                     feintChance = rand rnd (k5 + 3) (1 / 10) (4 / 10) \<rparr>;
               initialMicroGain = rand rnd (k5 + 4) (microGainMin d) (microGainMax d);
               initialPattern = MICRO_PATTERN_NAMES !
                 pickCumulative (rnd (k5 + 5))
                   (map (\<lambda>n. orOne (rolePatternWeights rl n)) MICRO_PATTERN_NAMES);
               chosenTier = [S, M, L] !
                 pickCumulative (rnd (k5 + 6)) (map (roleTierWeights rl) [S, M, L]);
               k6 = k5 + 7
           in Inr (\<lparr> mvX = playerX s + fst w,
                      mvY = playerY s + snd w,
                      vx = fst vw,
                      vy = snd vw,
                      mvR = r,
                      p1 = rand rnd k6 0 (2 * pi),
                      p2 = rand rnd (k6 + 1) 0 (2 * pi),
                      hitUntil = 0,
                      hits = 0,
                      escapeBoost = 0,
                      lastHitTime = 0,
                      dead = False,
                      microPattern = initialPattern,
                      microTier = chosenTier,
                      microTierIndex = tierIndexOf chosenTier,
                      microStart = tNow,
                      microDuration = rand rnd (k6 + 3) MICRO_MIN_MS MICRO_MAX_MS,
                      microBlendStart = tNow,
                      microNextSwitch = tNow + rand rnd (k6 + 4) MICRO_MIN_MS MICRO_MAX_MS,
                      prevOffset = (0, 0),
                      microGain = initialMicroGain,
                      nonFigureCount = (if startsWithFigure8 initialPattern then 0 else 1),
                      fleeSide = (if rnd (k6 + 5) < 1 / 2 then 1 else - 1),
                      role = rl,
                      roleExpires = tNow + rand rnd (k6 + 6) 8000 16000,
                      episode = ep,
                      episodeExpires = tNow + rand rnd (k6 + 7) 2000 6000,
                      dna = d,
                      wCurrent = wBase d,
                      anchorPosSx = 0,
                      anchorPosSy = 0,
                      anchorTargetSx = 0,
                      anchorTargetSy = 0,
                      anchorVelSx = 0,
                      anchorVelSy = 0,
                      anchorMoveStart = tNow,
                      anchorMoveDuration = 3000,
                      anchorMoveEnd = tNow + 3000,
                      frameAngle = rand rnd (k6 + 8) 0 (2 * pi),
                      frameRate = rand rnd (k6 + 9) (3 / 10000) (9 / 10000),
                      amPhase = rand rnd (k6 + 10) 0 (2 * pi),
                      fmPhase = rand rnd (k6 + 11) 0 (2 * pi),
                      microGainEff = None,
                      phaseFlipUntil = None,
                      zigZagUntil = None \<rparr>,
                   s\<lparr>roleCounts := rc, episodeCounts := ec, rngIx := k6 + 12\<rparr>)))"

text \<open>
  \<^verbatim>\<open>respawnMover(m)\<close> for the mover at index \<open>i\<close>: a fresh mover is spawned (which already
  counts its role and episode through \<^verbatim>\<open>pickRole\<close> and \<^verbatim>\<open>pickEpisode\<close>), its fields are
  copied into the existing object, and the counters are then adjusted once more.
\<close>

definition respawnMover :: "rng \<Rightarrow> real \<Rightarrow> nat \<Rightarrow> state \<Rightarrow> error + state" where
  "respawnMover rnd tNow i s =
     (case spawnMoverInWindow rnd tNow s of
        Inl e \<Rightarrow> Inl e
      | Inr (nm, s1) \<Rightarrow>
          if i < length (movers s1) then
            (let m = movers s1 ! i;
                 oldRole = role m;
                 oldEpisode = episode m;
                 m' = m\<lparr> mvX := mvX nm, mvY := mvY nm, vx := vx nm, vy := vy nm,
                         mvR := mvR nm, p1 := p1 nm, p2 := p2 nm,
                         hitUntil := 0, hits := 0, escapeBoost := 0, lastHitTime := 0,
                         dead := False,
                         microPattern := microPattern nm, microTier := microTier nm,
                         microTierIndex := microTierIndex nm, microStart := microStart nm,
                         microDuration := microDuration nm,
                         microBlendStart := microBlendStart nm,
                         microNextSwitch := microNextSwitch nm,
                         prevOffset := (0, 0), microGain := microGain nm,
                         nonFigureCount := nonFigureCount nm, fleeSide := fleeSide nm,
                         role := role nm, roleExpires := roleExpires nm,
                         episode := episode nm, episodeExpires := episodeExpires nm,
                         dna := dna nm, wCurrent := wCurrent nm,
                         anchorPosSx := anchorPosSx nm, anchorPosSy := anchorPosSy nm,
                         anchorTargetSx := anchorTargetSx nm,
                         anchorTargetSy := anchorTargetSy nm,
                         anchorVelSx := anchorVelSx nm, anchorVelSy := anchorVelSy nm,
                         anchorMoveStart := anchorMoveStart nm,
                         anchorMoveDuration := anchorMoveDuration nm,
                         anchorMoveEnd := anchorMoveEnd nm,
                         frameAngle := frameAngle nm, frameRate := frameRate nm,
                         amPhase := amPhase nm, fmPhase := fmPhase nm \<rparr>;
                 rc1 = (roleCounts s1)(oldRole := max 0 (roleCounts s1 oldRole - 1));
                 rc2 = rc1(role m' := rc1 (role m') + 1);
                 ec1 = (episodeCounts s1)
                         (oldEpisode := max 0 (episodeCounts s1 oldEpisode - 1));
                 ec2 = ec1(episode m' := ec1 (episode m') + 1)
             in Inr (s1\<lparr> movers := (movers s1)[i := m'],
                         roleCounts := rc2, episodeCounts := ec2 \<rparr>))
          else Inl TypeError)"

text \<open>
  \<^verbatim>\<open>ensureMoversCount\<close>: the push loop spawns until the collection has \<open>n\<close> movers,
  the pop loop drops the surplus from the end.
\<close>

fun pushMovers :: "rng \<Rightarrow> real \<Rightarrow> nat \<Rightarrow> state \<Rightarrow> error + state" where
  "pushMovers rnd tNow 0 s = Inr s"
| "pushMovers rnd tNow (Suc j) s =
     (case spawnMoverInWindow rnd tNow s of
        Inl e \<Rightarrow> Inl e
      | Inr (nm, s1) \<Rightarrow> pushMovers rnd tNow j (s1\<lparr>movers := movers s1 @ [nm]\<rparr>))"

definition ensureMoversCount :: "rng \<Rightarrow> real \<Rightarrow> state \<Rightarrow> error + state" where
  "ensureMoversCount rnd tNow s =
     (let n = (if moversEnabled (cfg s)
               then max 0 (min 5 (toInt32 (moversCount (cfg s)))) else 0);
          s1 = s\<lparr>cfg := (cfg s)\<lparr>moversCount := n\<rparr>\<rparr>
      in if n = 0 then Inr (s1\<lparr>movers := []\<rparr>)
         else (case pushMovers rnd tNow (nat n - length (movers s1)) s1 of
                 Inl e \<Rightarrow> Inl e
               | Inr s2 \<Rightarrow> Inr (s2\<lparr>movers := take (nat n) (movers s2)\<rparr>)))"

text \<open>\<^verbatim>\<open>respawnAllMovers\<close>: reconcile the count, then respawn and revive every slot.\<close>

fun respawnEach :: "rng \<Rightarrow> real \<Rightarrow> nat list \<Rightarrow> state \<Rightarrow> error + state" where
  "respawnEach rnd tNow [] s = Inr s"
| "respawnEach rnd tNow (i # is) s =
     (case respawnMover rnd tNow i s of
        Inl e \<Rightarrow> Inl e
      | Inr s1 \<Rightarrow>
          respawnEach rnd tNow is
            (s1\<lparr>movers := (movers s1)
                   [i := (movers s1 ! i)\<lparr>dead := False, hits := 0, escapeBoost := 0,
                                          lastHitTime := 0\<rparr>]\<rparr>))"

definition respawnAllMovers :: "rng \<Rightarrow> real \<Rightarrow> state \<Rightarrow> error + state" where
  "respawnAllMovers rnd tNow s =
     (case ensureMoversCount rnd tNow s of
        Inl e \<Rightarrow> Inl e
      | Inr s1 \<Rightarrow> respawnEach rnd tNow [0 ..< length (movers s1)] s1)"

section \<open>Hit testing and shooting\<close>

text \<open>\<^verbatim>\<open>hitTestMovers\<close>: the index of the first live mover under the reticle, or \<open>- 1\<close>.\<close>

fun hitScan :: "real \<Rightarrow> real \<Rightarrow> nat \<Rightarrow> mover list \<Rightarrow> int" where
  "hitScan px py i [] = - 1"
| "hitScan px py i (m # ms) =
     (if dead m then hitScan px py (i + 1) ms
      else if hypot (mvX m - px) (mvY m - py) < mvR m then int i
      else hitScan px py (i + 1) ms)"

definition hitTestMovers :: "state \<Rightarrow> int" where
  "hitTestMovers s =
     (if \<not> moversEnabled (cfg s) \<or> length (movers s) = 0 then - 1
      else hitScan (playerX s) (playerY s) 0 (movers s))"

text \<open>
  \<^verbatim>\<open>main.js\<close> reads the exports of \<^verbatim>\<open>state.js\<close> through \<^verbatim>\<open>import * as state\<close>, a
  module namespace object.  The properties of a namespace object cannot be assigned, and
  module code is strict: an assignment \<^verbatim>\<open>state.name = value\<close> throws a TypeError, whatever
  the value.  (Reading \<^verbatim>\<open>state.movers\<close> and writing the fields of a mover or the length of
  the collection are not assignments to the namespace.)
\<close>

definition assignNamespace :: "real \<Rightarrow> error + unit" where
  "assignNamespace v = Inl TypeError"

text \<open>
  The search of \<^verbatim>\<open>shoot\<close> for the closest live, unhit target under the reticle.
\<close>

fun closestTarget ::
  "real \<Rightarrow> real \<Rightarrow> nat \<Rightarrow> target list \<Rightarrow> (nat \<times> real) option \<Rightarrow> (nat \<times> real) option" where
  "closestTarget px py i [] best = best"
| "closestTarget px py i (tg # tgs) best =
     (let d = hypot (tgX tg - px) (tgY tg - py)
      in if tgDead tg \<or> tgHitStart tg \<noteq> 0 then closestTarget px py (i + 1) tgs best
         else if d < tgR tg \<and> (case best of None \<Rightarrow> True | Some (_, bd) \<Rightarrow> d < bd)
         then closestTarget px py (i + 1) tgs (Some (i, d))
         else closestTarget px py (i + 1) tgs best)"

text \<open>
  \<^verbatim>\<open>shoot\<close>, statement by statement: the assignment
  \<^verbatim>\<open>state.crosshairFlashUntil = t + CROSSHAIR_FLASH_MS\<close>, which throws, comes before the hit
  test.  The rest of the body is what the source goes on with: on a mover under the reticle
  the hit count is incremented, the escape boost set from it (\<^verbatim>\<open>x || 0\<close> is \<open>x\<close> on
  numbers), and at \<open>MOVERS_MAX_HITS\<close> the mover is respawned or marked dead; otherwise the
  closest target starts fading, or the miss flash is assigned (to the namespace again).
  Sound playback is not modelled.
\<close>

definition shoot :: "rng \<Rightarrow> real \<Rightarrow> state \<Rightarrow> error + state" where
  "shoot rnd t s =
     (case assignNamespace (t + CROSSHAIR_FLASH_MS) of
        Inl e \<Rightarrow> Inl e
      | Inr _ \<Rightarrow>
          (let mi = hitTestMovers s
           in if mi \<ge> 0 then
                (let m = movers s ! nat mi;
                     h = toInt32 (hits m) + 1;
                     esc = (if h = 1 then moversHit1Boost (cfg s)
                            else if h \<ge> 2 then moversHit1Boost (cfg s) + moversHit2Boost (cfg s)
                            else 0);
                     m1 = m\<lparr> hitUntil := t + 140, hits := h, lastHitTime := t,
                             escapeBoost := esc \<rparr>
                 in if h \<ge> MOVERS_MAX_HITS then
                      (let s1 = s\<lparr>movers := (movers s)[nat mi := m1\<lparr>hits := MOVERS_MAX_HITS\<rparr>]\<rparr>
                       in if regenOnHit (cfg s) then respawnMover rnd t (nat mi) s1
                          else Inr (s1\<lparr>movers := (movers s1)
                                       [nat mi := (movers s1 ! nat mi)
                                                    \<lparr>dead := True, hitUntil := 0,
                                                     lastHitTime := 0\<rparr>]\<rparr>))
                    else Inr (s\<lparr>movers := (movers s)[nat mi := m1]\<rparr>))
              else (case closestTarget (playerX s) (playerY s) 0 (targets s) None of
                      None \<Rightarrow>
                        (case assignNamespace (t + MISS_FLASH_MS) of
                           Inl e \<Rightarrow> Inl e
                         | Inr _ \<Rightarrow> Inr s)
                    | Some (bi, _) \<Rightarrow>
                        Inr (s\<lparr>targets := (targets s)
                                  [bi := (targets s ! bi)\<lparr>tgHitStart := t\<rparr>]\<rparr>))))"

section \<open>Heat map\<close>

text \<open>
  \<^verbatim>\<open>heatMap\<close> is created with \<open>HEAT_ROWS\<close> rows of \<open>HEAT_COLS\<close> cells and never
  resized, so the two index loops of \<^verbatim>\<open>decayHeatMap\<close> visit every cell.
\<close>

definition heat_wf :: "real list list \<Rightarrow> bool" where
  "heat_wf h = (length h = HEAT_ROWS \<and> (\<forall>row \<in> set h. length row = HEAT_COLS))"

definition decayHeatMap :: "real list list \<Rightarrow> real list list" where
  "decayHeatMap h = map (map (\<lambda>v. v * HEATMAP_DECAY)) h"

text \<open>\<^verbatim>\<open>heatMap[row][col] += amount\<close>.\<close>

definition heatAdd :: "real list list \<Rightarrow> nat \<Rightarrow> nat \<Rightarrow> real \<Rightarrow> real list list" where
  "heatAdd h row col amount = h[row := (h ! row)[col := h ! row ! col + amount]]"

text \<open>
  \<^verbatim>\<open>clamp(Math.floor(num / cell), 0, hi)\<close>, an index of \<^verbatim>\<open>getCellForPos\<close>.  On a cell
  size of 0 (an arena dimension of 0; the subtraction that yields it gives a positive zero)
  the quotient is not a real number: \<^verbatim>\<open>Infinity\<close>, which the clamp takes to \<open>hi\<close>,
  \<^verbatim>\<open>-Infinity\<close>, which it takes to 0, or for \<^verbatim>\<open>0 / 0\<close> the value \<^verbatim>\<open>NaN\<close>, which
  \<^verbatim>\<open>Math.floor\<close>, \<^verbatim>\<open>Math.min\<close> and \<^verbatim>\<open>Math.max\<close> return as it is: \<open>None\<close>.
\<close>

definition cellIndex :: "real \<Rightarrow> real \<Rightarrow> nat \<Rightarrow> nat option" where
  "cellIndex num cell hi =
     (if cell = 0 then (if num = 0 then None else if 0 < num then Some hi else Some 0)
      else Some (nat (max 0 (min (int hi) \<lfloor>num / cell\<rfloor>))))"

text \<open>\<^verbatim>\<open>getCellForPos\<close> returns the pair \<open>(row, col)\<close>.\<close>

definition getCellForPos :: "real \<Rightarrow> real \<Rightarrow> real \<Rightarrow> real \<Rightarrow> nat option \<times> nat option" where
  "getCellForPos sx sy limX limY =
     (let cellW = (limX * 2) / real HEAT_COLS;
          cellH = (limY * 2) / real HEAT_ROWS;
          col = cellIndex (sx + limX) cellW (HEAT_COLS - 1);
          row = cellIndex (sy + limY) cellH (HEAT_ROWS - 1)
      in (row, col))"

section \<open>Anchor scheduling\<close>

text \<open>
  A running minimum that starts at \<^verbatim>\<open>Infinity\<close> (\<open>None\<close>), and the comparison
  \<^verbatim>\<open>score > best.score\<close> on scores that are \<^verbatim>\<open>Infinity\<close> when no other mover exists.
\<close>

definition minInf :: "real list \<Rightarrow> real option" where
  "minInf ds = foldl (\<lambda>mn d. if (case mn of None \<Rightarrow> True | Some v \<Rightarrow> d < v)
                               then Some d else mn) None ds"

definition scoreGt :: "real option \<Rightarrow> real option \<Rightarrow> bool" where
  "scoreGt a b =
     (case b of None \<Rightarrow> False
      | Some vb \<Rightarrow> (case a of None \<Rightarrow> True | Some va \<Rightarrow> va > vb))"

record candidate =
  cSx :: real
  cSy :: real
  cRow :: nat
  cCol :: nat
  cScore :: "real option"

text \<open>
  One attempt of the candidate loop of \<^verbatim>\<open>chooseNewAnchorTarget\<close> (four draws).  \<open>others\<close>
  are the anchor positions of the other movers, \<open>tgs\<close> the live targets in screen space
  as \<open>(sx, sy, r)\<close>.
\<close>

definition anchorCandidate ::
  "rng \<Rightarrow> nat \<Rightarrow> real list list \<Rightarrow> bool \<Rightarrow> real \<Rightarrow> real \<Rightarrow> real \<Rightarrow> real
   \<Rightarrow> (real \<times> real) list \<Rightarrow> (real \<times> real \<times> real) list \<Rightarrow> candidate" where
  "anchorCandidate rnd k h flee bias r limX limY others tgs =
     (let c = nat \<lfloor>rand rnd k 0 (real HEAT_COLS)\<rfloor>;
          rw = nat \<lfloor>rand rnd (k + 1) 0 (real HEAT_ROWS)\<rfloor>;
          cellHeat = h ! rw ! c;
          cellW = (limX * 2) / real HEAT_COLS;
          cellH = (limY * 2) / real HEAT_ROWS;
          jitterX = (rnd (k + 2) - 1 / 2) * cellW * (8 / 10);
          jitterY = (rnd (k + 3) - 1 / 2) * cellH * (8 / 10);
          sx = - limX + (real c + 1 / 2) * cellW + jitterX;
          sy = - limY + (real rw + 1 / 2) * cellH + jitterY;
          minDistMovers = minInf (map (\<lambda>(ox, oy). hypot (sx - ox) (sy - oy)) others);
          minDistTg = minInf (map (\<lambda>(tsx, tsy, tr). hypot (sx - tsx) (sy - tsy) - (tr + r + 60)) tgs);
          distCenter = hypot sx sy;
          score = (case minDistMovers of
                     None \<Rightarrow> None
                   | Some md \<Rightarrow>
                       Some ((1 - cellHeat * (1 / 10))
                             + (md / max limX limY) * (12 / 10)
                             - (if (case minDistTg of None \<Rightarrow> False | Some v \<Rightarrow> v < 0)
                                then 25 / 10 else 0)
                             + (if flee then (distCenter / max limX limY) * (5 / 10) else 0)
                             + (distCenter / max limX limY) * bias))
      in \<lparr> cSx = sx, cSy = sy, cRow = rw, cCol = c, cScore = score \<rparr>)"

fun anchorAttempts ::
  "rng \<Rightarrow> real list list \<Rightarrow> bool \<Rightarrow> real \<Rightarrow> real \<Rightarrow> real \<Rightarrow> real
   \<Rightarrow> (real \<times> real) list \<Rightarrow> (real \<times> real \<times> real) list
   \<Rightarrow> nat \<Rightarrow> nat \<Rightarrow> candidate option \<Rightarrow> candidate option \<times> nat" where
  "anchorAttempts rnd h flee bias r limX limY others tgs 0 k best = (best, k)"
| "anchorAttempts rnd h flee bias r limX limY others tgs (Suc n) k best =
     (let cand = anchorCandidate rnd k h flee bias r limX limY others tgs
      in anchorAttempts rnd h flee bias r limX limY others tgs n (k + 4)
           (case best of
              None \<Rightarrow> Some cand
            | Some b \<Rightarrow> if scoreGt (cScore cand) (cScore b) then Some cand else best))"

text \<open>
  \<^verbatim>\<open>chooseNewAnchorTarget(m, t, limX, limY, liveTargetsScr, state.movers)\<close> for the mover
  \<open>m\<close> at index \<open>i\<close>; the other movers are read from the collection.  It returns the mover
  and the state with the heated cell and the advanced random index.
\<close>

definition otherAnchors :: "nat \<Rightarrow> mover list \<Rightarrow> (real \<times> real) list" where
  "otherAnchors i ms =
     map (\<lambda>j. (anchorPosSx (ms ! j), anchorPosSy (ms ! j)))
         (filter (\<lambda>j. j \<noteq> i) [0 ..< length ms])"

definition chooseNewAnchorTarget ::
  "rng \<Rightarrow> real \<Rightarrow> real \<Rightarrow> real \<Rightarrow> (real \<times> real \<times> real) list \<Rightarrow> nat
   \<Rightarrow> mover \<times> state \<Rightarrow> mover \<times> state" where
  "chooseNewAnchorTarget rnd t limX limY tgs i ms =
     (let m = fst ms; st = snd ms;
          bias = roleAnchorBias (role m) + episodeAnchorBias (episode m);
          (best, k1) = anchorAttempts rnd (heatMap st) (moversFlee (cfg st)) bias (mvR m)
                         limX limY (otherAnchors i (movers st)) tgs 25 (rngIx st) None;
          prevX = anchorPosSx m;
          prevY = anchorPosSy m
      in case best of
           Some b \<Rightarrow>
             (let dist0 = hypot (cSx b - prevX) (cSy b - prevY);
                  dist = (if dist0 = 0 then 1 else dist0);
                  baseDur = rand rnd k1 2000 5000 / macroSpeed (episode m);
                  dur = baseDur + dist * (3 / 10)
              in (m\<lparr> anchorTargetSx := cSx b, anchorTargetSy := cSy b,
                      anchorMoveStart := t, anchorMoveDuration := dur,
                      anchorMoveEnd := t + dur,
                      anchorVelSx := (cSx b - prevX) / dur,
                      anchorVelSy := (cSy b - prevY) / dur \<rparr>,
                  st\<lparr> heatMap := heatAdd (heatMap st) (cRow b) (cCol b) HEATMAP_INCREMENT,
                       rngIx := k1 + 1 \<rparr>))
         | None \<Rightarrow>
             (let sx = rand rnd k1 (- limX * (8 / 10)) (limX * (8 / 10));
                  sy = rand rnd (k1 + 1) (- limY * (8 / 10)) (limY * (8 / 10));
                  dist0 = hypot (sx - prevX) (sy - prevY);
                  dist = (if dist0 = 0 then 1 else dist0);
                  baseDur = rand rnd (k1 + 2) 2000 5000;
                  dur = baseDur + dist * (3 / 10)
              in (m\<lparr> anchorTargetSx := sx, anchorTargetSy := sy,
                      anchorMoveStart := t, anchorMoveDuration := dur,
                      anchorMoveEnd := t + dur,
                      anchorVelSx := (sx - prevX) / dur,
                      anchorVelSy := (sy - prevY) / dur \<rparr>,
                  st\<lparr> rngIx := k1 + 3 \<rparr>)))"

section \<open>Micro-patterns\<close>

text \<open>
  The options object a pattern function receives.  \<open>jsRem\<close> is the remainder \<^verbatim>\<open>%\<close>,
  which truncates the quotient towards zero; \<^verbatim>\<open>Math.pow\<close> on a non-negative base is
  \<open>powr\<close>.
\<close>

record opts =
  opt_w :: real
  opt_phase1 :: real
  opt_phase2 :: real
  opt_elapsed :: real
  opt_duration :: real

definition jsRem :: "real \<Rightarrow> real \<Rightarrow> real" where
  "jsRem a b = a - b * (if a / b \<ge> 0 then of_int \<lfloor>a / b\<rfloor> else of_int \<lceil>a / b\<rceil>)"

definition cycleOf :: "opts \<Rightarrow> real" where
  "cycleOf opts =
     (if opt_duration opts > 0
      then jsRem (opt_elapsed opts) (opt_duration opts) / opt_duration opts else 0)"

fun MICRO_PATTERNS :: "pattern \<Rightarrow> real \<Rightarrow> real \<Rightarrow> opts \<Rightarrow> real \<times> real" where
  "MICRO_PATTERNS figure8 t gain opts =
     (let w = opt_w opts * gain
      in (sin (w * t + opt_phase1 opts), sin (w * 2 * t + opt_phase2 opts)))"
| "MICRO_PATTERNS figure8Wide t gain opts =
     (let w = opt_w opts * gain
      in (sin (w * t + opt_phase1 opts),
          sin (w * (14 / 10) * t + opt_phase2 opts) * (8 / 10)))"
| "MICRO_PATTERNS figure8Spiral t gain opts =
     (let w = opt_w opts * gain;
          cycle = (if opt_duration opts > 0
                   then opt_elapsed opts / opt_duration opts else 0);
          scale = 3 / 10 + (7 / 10) * cycle
      in (sin (w * t + opt_phase1 opts) * scale,
          sin (w * 2 * t + opt_phase2 opts) * scale))"
| "MICRO_PATTERNS spiral t gain opts =
     (let w = opt_w opts * gain;
          r = cycleOf opts powr (9 / 10);
          a = w * t + opt_phase1 opts
      in (cos a * r, sin a * r))"
| "MICRO_PATTERNS spiralBurst t gain opts =
     (let w = opt_w opts * gain;
          sub = jsRem (cycleOf opts * 3) 1;
          r = sub powr (7 / 10);
          a = w * t + opt_phase1 opts
      in (cos a * r, sin a * r))"
| "MICRO_PATTERNS rosette t gain opts =
     (let w = opt_w opts * gain;
          k = 37 / 10;
          a = 35 / 100;
          angle1 = w * t + opt_phase1 opts;
          angle2 = k * w * t + opt_phase2 opts
      in (cos angle1 + a * cos angle2, sin angle1 - a * sin angle2))"
| "MICRO_PATTERNS swerveStop t gain opts =
     (let w = opt_w opts * gain;
          cycle = cycleOf opts
      in if cycle < 35 / 100 then (0, 0)
         else (let p = (cycle - 35 / 100) / (65 / 100);
                   a = w * t * (12 / 10);
                   ease = p * p * (3 - 2 * p)
               in (cos a * ease, sin a * (1 / 2) * ease)))"

text \<open>\<^verbatim>\<open>v || d\<close> on a number \<open>v\<close>.\<close>

definition orElse :: "real \<Rightarrow> real \<Rightarrow> real" where
  "orElse v d = (if v = 0 then d else v)"

text \<open>\<^verbatim>\<open>m.until && t < m.until\<close> on a field that may be missing.\<close>

definition activeUntil :: "real option \<Rightarrow> real \<Rightarrow> bool" where
  "activeUntil u t = (case u of None \<Rightarrow> False | Some v \<Rightarrow> v \<noteq> 0 \<and> t < v)"

text \<open>
  \<^verbatim>\<open>computeMicroOffset\<close> up to the soft clamp: the pattern value, rotated by the frame
  angle, scaled by the tier amplitude, with the two feint effects.  The result is
  \<open>((ox, oy), (ampX, ampY))\<close>.
\<close>

definition microAmplitude :: "pattern \<Rightarrow> tier \<Rightarrow> real \<Rightarrow> real \<Rightarrow> real \<times> real" where
  "microAmplitude pn tr limX limY =
     (if includesSpiral pn
      then (SPIRAL_SCALE tr * min limX limY, SPIRAL_SCALE tr * min limX limY)
      else (TIER_SCALE tr * limX, TIER_SCALE tr * limY))"

definition microOpts :: "config \<Rightarrow> mover \<Rightarrow> real \<Rightarrow> opts" where
  "microOpts c m t =
     \<lparr> opt_w = orElse (wCurrent m) 1 * orElse (moversSpeed c) 1,
       opt_phase1 = p1 m, opt_phase2 = p2 m,
       opt_elapsed = t - microStart m,
       opt_duration = orElse (microDuration m) 1 \<rparr>"

definition microRawOffset :: "config \<Rightarrow> mover \<Rightarrow> real \<Rightarrow> real \<Rightarrow> real \<Rightarrow> real \<times> real" where
  "microRawOffset c m t limX limY =
     (let dtMs = t - microStart m;
          elapsedSec = dtMs * (1 / 1000);
          g = orElse (case microGainEff m of None \<Rightarrow> microGain m | Some ge \<Rightarrow> ge) 1;
          pt = MICRO_PATTERNS (microPattern m) elapsedSec g (microOpts c m t);
          a = frameAngle m;
          rx = fst pt * cos a - snd pt * sin a;
          ry = fst pt * sin a + snd pt * cos a;
          (ampX, ampY) = microAmplitude (microPattern m) (microTier m) limX limY;
          ox0 = rx * ampX;
          oy0 = ry * ampY;
          ox1 = (if activeUntil (phaseFlipUntil m) t then - ox0 else ox0);
          zz = sin (elapsedSec * 25) * (1 / 10)
      in if activeUntil (zigZagUntil m) t
         then (ox1 + zz * ampX * (3 / 10), oy0 + zz * ampY * (3 / 10))
         else (ox1, oy0))"

text \<open>
  The rest of \<^verbatim>\<open>computeMicroOffset\<close>: the soft radial clamp and the blend with the
  previous offset, which give the offset and the blend factor \<open>alpha\<close>; the offset is
  stored as \<^verbatim>\<open>prevOffset\<close> once the blend is complete.
\<close>

definition softClampBlend ::
  "config \<Rightarrow> mover \<Rightarrow> real \<Rightarrow> real \<Rightarrow> real \<Rightarrow> real \<times> real \<times> real" where
  "softClampBlend c m t limX limY =
     (let (ox0, oy0) = microRawOffset c m t limX limY;
          buffer = mvR m + 20;
          maxDx = limX - \<bar>anchorPosSx m\<bar> - buffer;
          maxDy = limY - \<bar>anchorPosSy m\<bar> - buffer;
          fx = (if maxDx \<le> 0 then 0 else maxDx / max \<bar>ox0\<bar> (1 / 1000000));
          fy = (if maxDy \<le> 0 then 0 else maxDy / max \<bar>oy0\<bar> (1 / 1000000));
          scale = min 1 (min fx fy);
          ox = ox0 * scale;
          oy = oy0 * scale;
          bdt = t - microBlendStart m;
          alpha = max 0 (min 1 (bdt / MICRO_BLEND_MS));
          resultX = fst (prevOffset m) * (1 - alpha) + ox * alpha;
          resultY = snd (prevOffset m) * (1 - alpha) + oy * alpha
      in (resultX, resultY, alpha))"

definition computeMicroOffset ::
  "config \<Rightarrow> mover \<Rightarrow> real \<Rightarrow> real \<Rightarrow> real \<Rightarrow> (real \<times> real) \<times> mover" where
  "computeMicroOffset c m t limX limY =
     (case softClampBlend c m t limX limY of
        (resultX, resultY, alpha) \<Rightarrow>
          ((resultX, resultY),
           (if alpha \<ge> 1 then m\<lparr>prevOffset := (resultX, resultY)\<rparr> else m)))"

text \<open>
  \<^verbatim>\<open>chooseNewMicro(m, t)\<close>: two weighted draws choose the pattern and the tier
  (\<open>chooseMicroNames\<close>), two more the duration and the gain, a fifth decides whether the
  lateral side is re-rolled by a sixth.
\<close>

definition chooseMicroNames :: "rng \<Rightarrow> nat \<Rightarrow> mover \<Rightarrow> pattern \<times> tier" where
  "chooseMicroNames rnd k m =
     (let ti = (microTierIndex m + 1) mod length MICRO_TIERS;
          candidates = (if nonFigureCount m \<ge> 3
                        then filter startsWithFigure8 MICRO_PATTERN_NAMES
                        else MICRO_PATTERN_NAMES);
          chosenName = candidates !
            pickCumulative (rnd k)
              (map (\<lambda>n. orOne (rolePatternWeights (role m) n)
                        * orOne (episodePatternWeights (episode m) n)) candidates);
          nextIndex = (ti + 1) mod length MICRO_TIERS;
          tierCandidates = [MICRO_TIERS ! nextIndex,
                            MICRO_TIERS ! ((nextIndex + 1) mod length MICRO_TIERS),
                            MICRO_TIERS ! ((nextIndex + 2) mod length MICRO_TIERS)];
          chosenTierName = tierCandidates !
            pickCumulative (rnd (k + 1))
              (map (\<lambda>tn. orElse (roleTierWeights (role m) tn) 1
                         * orElse (episodeTierWeights (episode m) tn) 1) tierCandidates)
      in (chosenName, chosenTierName))"

definition chooseNewMicro :: "rng \<Rightarrow> real \<Rightarrow> mover \<times> state \<Rightarrow> mover \<times> state" where
  "chooseNewMicro rnd t ms =
     (case chooseMicroNames rnd (rngIx (snd ms)) (fst ms) of
        (chosenName, chosenTierName) \<Rightarrow>
          (let m = fst ms; st = snd ms; k = rngIx st;
               baseDur = rand rnd (k + 2) MICRO_MIN_MS MICRO_MAX_MS;
               m1 = m\<lparr> microPattern := chosenName, microTier := chosenTierName,
                       microTierIndex := tierIndexOf chosenTierName,
                       microStart := t, microDuration := baseDur, microBlendStart := t,
                       microNextSwitch := t + baseDur,
                       microGain := rand rnd (k + 3) (microGainMin (dna m))
                                                     (microGainMax (dna m)),
                       nonFigureCount := (if startsWithFigure8 chosenName then 0
                                          else nonFigureCount m + 1) \<rparr>
           in if rnd (k + 4) < 3 / 10
              then (m1\<lparr>fleeSide := (if rnd (k + 5) < 1 / 2 then 1 else - 1)\<rparr>,
                    st\<lparr>rngIx := k + 6\<rparr>)
              else (m1, st\<lparr>rngIx := k + 5\<rparr>)))"

section \<open>The per-frame update\<close>

text \<open>
  What \<^verbatim>\<open>updateMovers\<close> computes once per frame before its mover loop: the arena limits,
  the rotation, the live targets and the positions of all movers in screen space.
\<close>

record frame =
  fNow :: real
  fDtN :: real
  fDtMs :: real
  fPlayerSpeed :: real
  fLimX :: real
  fLimY :: real
  fCos :: real
  fSin :: real
  fTargets :: "(real \<times> real \<times> real) list"
  fMoversScr :: "(real \<times> real) list"

definition liveTargetsScr :: "state \<Rightarrow> real \<Rightarrow> real \<Rightarrow> (real \<times> real \<times> real) list" where
  "liveTargetsScr s cs sn =
     map (\<lambda>tg. (let scrT = worldToScreen (tgX tg - playerX s) (tgY tg - playerY s) cs sn
                in (fst scrT, snd scrT, tgR tg)))
         (filter (\<lambda>tg. \<not> (tgDead tg \<or> tgHitStart tg \<noteq> 0)) (targets s))"

definition moversScr :: "state \<Rightarrow> real \<Rightarrow> real \<Rightarrow> (real \<times> real) list" where
  "moversScr s cs sn =
     map (\<lambda>mv. worldToScreen (mvX mv - playerX s) (mvY mv - playerY s) cs sn) (movers s)"

text \<open>The heal check at the head of the mover loop.\<close>

definition healStep :: "real \<Rightarrow> mover \<Rightarrow> mover" where
  "healStep tNow m =
     (if hits m > 0 \<and> lastHitTime m \<noteq> 0 \<and> tNow - lastHitTime m > HEAL_INTERVAL_MS
      then m\<lparr>hits := 0, escapeBoost := 0, lastHitTime := 0\<rparr> else m)"

text \<open>Role rotation: decrement, \<^verbatim>\<open>pickRole\<close> (which increments), new micro-pattern.\<close>

definition roleStep :: "rng \<Rightarrow> real \<Rightarrow> mover \<times> state \<Rightarrow> mover \<times> state" where
  "roleStep rnd tNow ms =
     (let m = fst ms; st = snd ms
      in if tNow > roleExpires m then
           (let rc = (roleCounts st)(role m := max 0 (roleCounts st (role m) - 1));
                (rl, rc1, k1) = pickRole rnd rc (rngIx st);
                m1 = m\<lparr>role := rl, roleExpires := tNow + rand rnd k1 8000 16000\<rparr>
            in chooseNewMicro rnd tNow (m1, st\<lparr>roleCounts := rc1, rngIx := k1 + 1\<rparr>))
         else ms)"

text \<open>
  Episode rotation: decrement, \<^verbatim>\<open>pickEpisode\<close> (which increments), then the explicit
  \<^verbatim>\<open>episodeCounts[m.episode] = (episodeCounts[m.episode] || 0) + 1\<close>, a new anchor target
  and a new micro-pattern.
\<close>

definition episodeStep ::
  "rng \<Rightarrow> frame \<Rightarrow> nat \<Rightarrow> mover \<times> state \<Rightarrow> mover \<times> state" where
  "episodeStep rnd f i ms =
     (let m = fst ms; st = snd ms; tNow = fNow f
      in if tNow > episodeExpires m then
           (let ec = (episodeCounts st)
                       (episode m := max 0 (episodeCounts st (episode m) - 1));
                (ep, ec1, k1) = pickEpisode rnd ec (rngIx st);
                m1 = m\<lparr>episode := ep, episodeExpires := tNow + rand rnd k1 2000 6000\<rparr>;
                ec2 = ec1(ep := ec1 ep + 1)
            in chooseNewMicro rnd tNow
                 (chooseNewAnchorTarget rnd tNow (fLimX f) (fLimY f) (fTargets f) i
                    (m1, st\<lparr>episodeCounts := ec2, rngIx := k1 + 1\<rparr>)))
         else ms)"

text \<open>
  The anchor advances by its velocity over the frame time; a transition that has reached its
  end gets a new target; an expired micro-pattern is replaced.
\<close>

definition anchorAdvance :: "real \<Rightarrow> mover \<Rightarrow> mover" where
  "anchorAdvance dtMs m =
     m\<lparr> anchorPosSx := anchorPosSx m + anchorVelSx m * dtMs,
        anchorPosSy := anchorPosSy m + anchorVelSy m * dtMs \<rparr>"

definition retargetStep ::
  "rng \<Rightarrow> frame \<Rightarrow> nat \<Rightarrow> mover \<times> state \<Rightarrow> mover \<times> state" where
  "retargetStep rnd f i ms =
     (if fNow f \<ge> anchorMoveEnd (fst ms)
      then chooseNewAnchorTarget rnd (fNow f) (fLimX f) (fLimY f) (fTargets f) i ms
      else ms)"

definition microStep :: "rng \<Rightarrow> real \<Rightarrow> mover \<times> state \<Rightarrow> mover \<times> state" where
  "microStep rnd tNow ms =
     (if tNow > microNextSwitch (fst ms) then chooseNewMicro rnd tNow ms else ms)"

text \<open>
  The threat scalar of a mover at screen position \<open>scr\<close>, and what it modulates: the
  eased frequency, the effective gain, and the remaining durations of the micro-pattern and
  of the anchor transition, which are only ever shortened.
\<close>

definition threatAlphaOf :: "config \<Rightarrow> frame \<Rightarrow> real \<times> real \<Rightarrow> real" where
  "threatAlphaOf c f scr =
     (if moversFlee c
      then max 0 (1 - hypot (fst scr) (snd scr) / (min (fLimX f) (fLimY f) * (75 / 100)))
      else 0)"

definition modulate :: "frame \<Rightarrow> real \<Rightarrow> mover \<Rightarrow> mover" where
  "modulate f threatAlpha m =
     (let tNow = fNow f;
          fm = 1 + (2 / 10) * sin (tNow * (4 / 10000) + fmPhase m);
          targetW = wBase (dna m) * fm * (1 + threatAlpha * (8 / 10));
          am = 1 + (2 / 10) * sin (tNow * (5 / 10000) + amPhase m)
      in m\<lparr> wCurrent := wCurrent m + (targetW - wCurrent m) * (1 / 10),
            microGainEff := Some (orElse (microGain m) 1 * am * (1 + threatAlpha * (5 / 10))) \<rparr>)"

definition shortenMicro :: "real \<Rightarrow> real \<Rightarrow> mover \<Rightarrow> mover" where
  "shortenMicro tNow threatAlpha m =
     (let remaining = microNextSwitch m - tNow;
          desiredRem = orElse (microDuration m) MICRO_MAX_MS * (1 - (5 / 10) * threatAlpha)
      in if remaining > desiredRem then m\<lparr>microNextSwitch := tNow + desiredRem\<rparr> else m)"

definition shortenAnchor :: "real \<Rightarrow> real \<Rightarrow> mover \<Rightarrow> mover" where
  "shortenAnchor tNow threatAlpha m =
     (let rem = anchorMoveEnd m - tNow;
          desired = anchorMoveDuration m * (1 - (3 / 10) * threatAlpha) / macroSpeed (episode m)
      in if rem > desired
         then m\<lparr> anchorVelSx := (anchorTargetSx m - anchorPosSx m) / desired,
                 anchorVelSy := (anchorTargetSy m - anchorPosSy m) / desired,
                 anchorMoveEnd := tNow + desired,
                 anchorMoveDuration := desired \<rparr>
         else m)"

text \<open>
  The feints: above a threat of 0.45 one draw decides whether a feint happens, a second
  which one, a third for how long.  The first choice only writes the unused
  \<^verbatim>\<open>anchorExpires\<close>.
\<close>

definition feintStep :: "rng \<Rightarrow> real \<Rightarrow> real \<Rightarrow> mover \<times> state \<Rightarrow> mover \<times> state" where
  "feintStep rnd tNow threatAlpha ms =
     (let m = fst ms; st = snd ms; k = rngIx st
      in if threatAlpha > 45 / 100 then
           (if rnd k < orElse (feintChance (dna m)) (2 / 10) * threatAlpha * (3 / 10) then
              (let choice = \<lfloor>rnd (k + 1) * 3\<rfloor>
               in if choice = 0 then (m, st\<lparr>rngIx := k + 2\<rparr>)
                  else if choice = 1
                  then (m\<lparr>phaseFlipUntil := Some (tNow + rand rnd (k + 2) 200 500)\<rparr>,
                        st\<lparr>rngIx := k + 3\<rparr>)
                  else (m\<lparr>zigZagUntil := Some (tNow + rand rnd (k + 2) 250 600)\<rparr>,
                        st\<lparr>rngIx := k + 3\<rparr>))
            else (m, st\<lparr>rngIx := k + 1\<rparr>))
         else ms)"

text \<open>
  Steering.  The three avoidance loops add to an acceleration \<open>(ax, ay)\<close>: repulsion from
  the live targets, separation from the other live movers (their positions are the
  per-frame snapshot, their radius and velocity the current ones), and predictive
  avoidance over a look-ahead of 0.5.
\<close>

definition targetRepulsion ::
  "real \<Rightarrow> real \<Rightarrow> real \<times> real \<Rightarrow> (real \<times> real \<times> real) list \<Rightarrow> real \<times> real" where
  "targetRepulsion avoidK r scr tgs =
     foldl (\<lambda>(ax, ay) (osx, osy, ore).
              (let dxs = fst scr - osx;
                   dys = snd scr - osy;
                   dist = orElse (hypot dxs dys) (1 / 10000);
                   avoidR = r + ore + 70;
                   p = 1 - dist / avoidR
               in if dist < avoidR
                  then (ax + (dxs / dist) * (p * (12 / 10)) * avoidK,
                        ay + (dys / dist) * (p * (12 / 10)) * avoidK)
                  else (ax, ay)))
           (0, 0) tgs"

definition moverSeparation ::
  "real \<Rightarrow> frame \<Rightarrow> nat \<Rightarrow> mover list \<Rightarrow> real \<Rightarrow> real \<times> real \<Rightarrow> real \<times> real
   \<Rightarrow> real \<times> real" where
  "moverSeparation avoidK f i others r scr acc =
     foldl (\<lambda>(ax, ay) j.
              (if j = i \<or> dead (others ! j) then (ax, ay)
               else (let osc = fMoversScr f ! j;
                         dxs = fst scr - fst osc;
                         dys = snd scr - snd osc;
                         dist = orElse (hypot dxs dys) (1 / 10000);
                         avoidR = r + mvR (others ! j) + 55;
                         p = 1 - dist / avoidR
                     in if dist < avoidR
                        then (ax + (dxs / dist) * (p * (8 / 10)) * avoidK,
                              ay + (dys / dist) * (p * (8 / 10)) * avoidK)
                        else (ax, ay))))
           acc [0 ..< length others]"

definition predictiveAvoidance ::
  "real \<Rightarrow> frame \<Rightarrow> nat \<Rightarrow> mover list \<Rightarrow> real \<Rightarrow> real \<times> real \<Rightarrow> real \<times> real
   \<Rightarrow> real \<times> real \<Rightarrow> real \<times> real" where
  "predictiveAvoidance avoidK f i others r scr vScr acc =
     foldl (\<lambda>(ax, ay) j.
              (if j = i \<or> dead (others ! j) then (ax, ay)
               else (let relX = fst scr - fst (fMoversScr f ! j);
                         relY = snd scr - snd (fMoversScr f ! j);
                         oVel = worldToScreen (vx (others ! j)) (vy (others ! j))
                                  (fCos f) (fSin f);
                         relVx = fst vScr - fst oVel;
                         relVy = snd vScr - snd oVel;
                         relSpeedSq = relVx * relVx + relVy * relVy;
                         ttc = - (relX * relVx + relY * relVy) / relSpeedSq;
                         fx = relX + relVx * ttc;
                         fy = relY + relVy * ttc;
                         distF = hypot fx fy;
                         safeDist = r + mvR (others ! j) + 50;
                         p = 1 - distF / safeDist
                     in if relSpeedSq < 1 / 1000000 then (ax, ay)
                        else if ttc > 0 \<and> ttc < 1 / 2 \<and> distF < safeDist
                        then (ax + (fx / orElse distF (1 / 10000)) * p * (5 / 10) * avoidK,
                              ay + (fy / orElse distF (1 / 10000)) * p * (5 / 10) * avoidK)
                        else (ax, ay))))
           acc [0 ..< length others]"

text \<open>The flee force added to the desired velocity \<open>des\<close>.\<close>

definition fleeForce ::
  "config \<Rightarrow> frame \<Rightarrow> mover \<Rightarrow> real \<times> real \<Rightarrow> real \<times> real \<Rightarrow> real \<times> real" where
  "fleeForce c f m scr des =
     (let playerSpeed = fPlayerSpeed f;
          fleeActive = (moversFlee c \<and> (playerSpeed > 0 \<or> escapeBoost m > 0));
          distToPlayer = orElse (hypot (fst scr) (snd scr)) (1 / 10000);
          fleeR = min (fLimX f) (fLimY f) * (7 / 10);
          withinRadius = (distToPlayer < fleeR);
          inv = (if withinRadius then 1 - distToPlayer / fleeR else 1);
          boost = 1 + escapeBoost m;
          baseFleeV = (if moversFlee c \<and> playerSpeed > 0 then playerSpeed
                       else 8 * orElse (moversSpeed c) 1);
          fleeV = baseFleeV * inv * boost;
          dirX = fst scr / distToPlayer;
          dirY = snd scr / distToPlayer;
          latX = - dirY * orElse (fleeSide m) 1;
          latY = dirX * orElse (fleeSide m) 1;
          radialFactor = (if \<not> moversFlee c \<or> playerSpeed = 0 then 8 / 10 else 6 / 10);
          lateralFactor = (if \<not> moversFlee c \<or> playerSpeed = 0 then 2 / 10 else 4 / 10)
      in if fleeActive \<and> (withinRadius \<or> escapeBoost m > 0)
         then (fst des + (dirX * radialFactor + latX * lateralFactor) * fleeV,
               snd des + (dirY * radialFactor + latY * lateralFactor) * fleeV)
         else des)"

text \<open>
  The remainder of the loop body: desired velocity towards anchor plus micro offset,
  avoidance, flee force, flow field, hit boost, speed cap, integration, wall containment
  and the conversion back to world space give the new world position and velocity
  (\<open>steerKin\<close>), which are written to the mover (\<open>steer\<close>).
\<close>

definition steerKin ::
  "config \<Rightarrow> frame \<Rightarrow> nat \<Rightarrow> mover list \<Rightarrow> real \<Rightarrow> real \<Rightarrow> real \<times> real \<Rightarrow> real \<times> real
   \<Rightarrow> real \<times> real \<Rightarrow> mover \<Rightarrow> real \<times> real \<times> real \<times> real" where
  "steerKin c f i others px py scr vScr microOff m =
     (let tNow = fNow f;
          targetSx = anchorPosSx m + fst microOff;
          targetSy = anchorPosSy m + snd microOff;
          des0 = ((targetSx - fst scr) * (6 / 100), (targetSy - snd scr) * (6 / 100));
          acc = predictiveAvoidance (moversAvoid c) f i others (mvR m) scr vScr
                  (moverSeparation (moversAvoid c) f i others (mvR m) scr
                     (targetRepulsion (moversAvoid c) (mvR m) scr (fTargets f)));
          des1 = fleeForce c f m scr des0;
          nX = sin (fst scr * (2 / 100) + tNow * (1 / 1000) + wBase (dna m)) * (5 / 10);
          nY = cos (snd scr * (2 / 100) + tNow * (1 / 1000) + wBase (dna m)) * (5 / 10);
          des2 = (fst des1 + nX * (3 / 10), snd des1 + nY * (3 / 10));
          des3 = (if \<not> moversFlee c \<and> escapeBoost m > 0
                  then (fst des2 * (1 + escapeBoost m), snd des2 * (1 + escapeBoost m))
                  else des2);
          sv0 = (fst des3 + fst acc, snd des3 + snd acc);
          sv1 = (if hypot (fst sv0) (snd sv0) < 5 / 10000
                 then (fst vScr * (7 / 10), snd vScr * (7 / 10)) else sv0);
          spd = orElse (hypot (fst sv1) (snd sv1)) 1;
          maxSp = 8 * moversSpeed c;
          sv2 = (if spd > maxSp then ((fst sv1 / spd) * maxSp, (snd sv1 / spd) * maxSp)
                 else sv1);
          sx0 = fst scr + fst sv2 * fDtN f;
          sy0 = snd scr + snd sv2 * fDtN f;
          bx = fLimX f - mvR m;
          by = fLimY f - mvR m;
          sx = (if sx0 < - bx then - bx else if sx0 > bx then bx else sx0);
          svx = (if sx0 < - bx then (if fst sv2 < 0 then 0 else fst sv2)
                 else if sx0 > bx then (if fst sv2 > 0 then 0 else fst sv2)
                 else fst sv2);
          sy = (if sy0 < - by then - by else if sy0 > by then by else sy0);
          svy = (if sy0 < - by then (if snd sv2 < 0 then 0 else snd sv2)
                 else if sy0 > by then (if snd sv2 > 0 then 0 else snd sv2)
                 else snd sv2);
          wpos = screenToWorld sx sy (fCos f) (fSin f);
          wvel = screenToWorld svx svy (fCos f) (fSin f)
      in (px + fst wpos, py + snd wpos, fst wvel, snd wvel))"

definition steer ::
  "config \<Rightarrow> frame \<Rightarrow> nat \<Rightarrow> mover list \<Rightarrow> real \<Rightarrow> real \<Rightarrow> real \<times> real \<Rightarrow> real \<times> real
   \<Rightarrow> real \<times> real \<Rightarrow> mover \<Rightarrow> mover" where
  "steer c f i others px py scr vScr microOff m =
     (case steerKin c f i others px py scr vScr microOff m of
        (x', y', vx', vy') \<Rightarrow> m\<lparr> mvX := x', mvY := y', vx := vx', vy := vy' \<rparr>)"

text \<open>
  One iteration of the mover loop of \<^verbatim>\<open>updateMovers\<close>, for the mover at index \<open>i\<close>,
  in the order of the source: the scheduling stage (heal, role and episode rotation, anchor
  advance and retargeting, micro-pattern expiry), the screen position and velocity, the
  threat stage, and the motion stage (frame rotation, micro offset, steering).  A dead mover
  is skipped.
\<close>

definition scheduleStage :: "rng \<Rightarrow> frame \<Rightarrow> nat \<Rightarrow> state \<Rightarrow> mover \<times> state" where
  "scheduleStage rnd f i st =
     microStep rnd (fNow f)
       (retargetStep rnd f i
          (let ms0 = episodeStep rnd f i
                       (roleStep rnd (fNow f) (healStep (fNow f) (movers st ! i), st))
           in (anchorAdvance (fDtMs f) (fst ms0), snd ms0)))"

definition threatStage :: "rng \<Rightarrow> frame \<Rightarrow> real \<Rightarrow> mover \<times> state \<Rightarrow> mover \<times> state" where
  "threatStage rnd f threatAlpha ms =
     feintStep rnd (fNow f) threatAlpha
       (shortenAnchor (fNow f) threatAlpha
          (shortenMicro (fNow f) threatAlpha (modulate f threatAlpha (fst ms))),
        snd ms)"

definition motionStage ::
  "config \<Rightarrow> frame \<Rightarrow> nat \<Rightarrow> mover list \<Rightarrow> real \<Rightarrow> real \<Rightarrow> real \<times> real \<Rightarrow> real \<times> real
   \<Rightarrow> mover \<Rightarrow> mover" where
  "motionStage c f i others px py scr vScr m =
     (case computeMicroOffset c
             (m\<lparr>frameAngle := frameAngle m + frameRate m * fDtMs f\<rparr>)
             (fNow f) (fLimX f) (fLimY f) of
        (microOff, m3) \<Rightarrow> steer c f i others px py scr vScr microOff m3)"

definition updateMover :: "rng \<Rightarrow> frame \<Rightarrow> nat \<Rightarrow> state \<Rightarrow> state" where
  "updateMover rnd f i st =
     (if dead (movers st ! i) then st
      else
        (let ms1 = scheduleStage rnd f i st;
             scr = worldToScreen (mvX (fst ms1) - playerX st) (mvY (fst ms1) - playerY st)
                     (fCos f) (fSin f);
             vScr = worldToScreen (vx (fst ms1)) (vy (fst ms1)) (fCos f) (fSin f);
             threatAlpha = threatAlphaOf (cfg st) f scr;
             ms2 = threatStage rnd f threatAlpha ms1;
             m4 = motionStage (cfg st) f i (movers (snd ms2)) (playerX st) (playerY st)
                    scr vScr (fst ms2)
         in (snd ms2)\<lparr>movers := (movers (snd ms2))[i := m4]\<rparr>))"

text \<open>
  The loop of \<^verbatim>\<open>updateMovers\<close> that warms the cell under every live anchor:
  \<^verbatim>\<open>heatMap[cell.row][cell.col] += HEATMAP_INCREMENT * 0.2\<close>.  For a row \<^verbatim>\<open>NaN\<close> the
  row \<^verbatim>\<open>heatMap[NaN]\<close> is \<^verbatim>\<open>undefined\<close> and indexing it throws a TypeError; for a
  column \<^verbatim>\<open>NaN\<close> alone the sum is stored under the property name \<^verbatim>\<open>NaN\<close> of the row
  and no cell changes.
\<close>

fun warmAnchors ::
  "real \<Rightarrow> real \<Rightarrow> mover list \<Rightarrow> real list list \<Rightarrow> error + real list list" where
  "warmAnchors limX limY [] h = Inr h"
| "warmAnchors limX limY (mv # ms) h =
     (if dead mv then warmAnchors limX limY ms h
      else (case getCellForPos (anchorPosSx mv) (anchorPosSy mv) limX limY of
              (None, col) \<Rightarrow> Inl TypeError
            | (Some row, None) \<Rightarrow> warmAnchors limX limY ms h
            | (Some row, Some col) \<Rightarrow>
                warmAnchors limX limY ms (heatAdd h row col (HEATMAP_INCREMENT * (2 / 10)))))"

text \<open>
  \<^verbatim>\<open>updateMovers(dtN, playerSpeed)\<close>: reconcile the count, return when disabled or empty,
  read the canvas (which throws on \<^verbatim>\<open>null\<close>), decay the heat map and warm the cells
  under the live anchors (which throws on a row \<^verbatim>\<open>NaN\<close>), then run the mover loop.
\<close>

definition updateMovers :: "rng \<Rightarrow> real \<Rightarrow> real \<Rightarrow> real \<Rightarrow> state \<Rightarrow> error + state" where
  "updateMovers rnd tNow dtN playerSpeed s =
     (case ensureMoversCount rnd tNow s of
        Inl e \<Rightarrow> Inl e
      | Inr s1 \<Rightarrow>
          if \<not> moversEnabled (cfg s1) \<or> length (movers s1) = 0 then Inr s1
          else (case canvas s1 of
                  None \<Rightarrow> Inl TypeError
                | Some cv \<Rightarrow>
                    (let limX = width cv / 2 - MARGIN;
                         limY = height cv / 2 - MARGIN;
                         cs = cos (rollAngle s1);
                         sn = sin (rollAngle s1);
                         f = \<lparr> fNow = tNow, fDtN = dtN, fDtMs = dtN * (166667 / 10000),
                               fPlayerSpeed = playerSpeed, fLimX = limX, fLimY = limY,
                               fCos = cs, fSin = sn,
                               fTargets = liveTargetsScr s1 cs sn,
                               fMoversScr = moversScr s1 cs sn \<rparr>
                     in case warmAnchors limX limY (movers s1) (decayHeatMap (heatMap s1)) of
                          Inl e \<Rightarrow> Inl e
                        | Inr hm \<Rightarrow>
                            Inr (foldl (\<lambda>st i. updateMover rnd f i st) (s1\<lparr>heatMap := hm\<rparr>)
                                   [0 ..< length (movers s1)]))))"

section \<open>Sequences of calls\<close>

text \<open>
  Sequences of calls of the two entry points: an update of the movers and a shot.
\<close>

datatype event = Update real real real | Shoot real

fun applyEvent :: "rng \<Rightarrow> event \<Rightarrow> state \<Rightarrow> error + state" where
  "applyEvent rnd (Update tNow dtN playerSpeed) s = updateMovers rnd tNow dtN playerSpeed s"
| "applyEvent rnd (Shoot t) s = shoot rnd t s"

fun runEvents :: "rng \<Rightarrow> event list \<Rightarrow> state \<Rightarrow> error + state" where
  "runEvents rnd [] s = Inr s"
| "runEvents rnd (e # es) s =
     (case applyEvent rnd e s of Inl err \<Rightarrow> Inl err | Inr s1 \<Rightarrow> runEvents rnd es s1)"

section \<open>Example inputs\<close>

text \<open>
  A random stream that always draws 0, the default configuration with one mover, and a
  state with one live mover under the reticle in a 1880 by 1480 canvas (an arena of
  800 by 600 around the centre).
\<close>

definition rnd0 :: rng where
  "rnd0 n = 0"

definition exCfg :: config where
  "exCfg = \<lparr> moversEnabled = True, moversCount = 1, moversSpeed = 1, moversAvoid = 1,
             moversR = 14, moversFlee = False, moversHit1Boost = 4 / 10,
             moversHit2Boost = 6 / 10, regenOnHit = True \<rparr>"

definition exMover :: mover where
  "exMover = \<lparr> mvX = 3, mvY = 4, vx = 1, vy = 0, mvR = 14, p1 = 0, p2 = 0,
               hitUntil = 0, hits = 0, escapeBoost = 0, lastHitTime = 0, dead = False,
               microPattern = figure8, microTier = S, microTierIndex = 0,
               microStart = 0, microDuration = 2500, microBlendStart = 0,
               microNextSwitch = 2500, prevOffset = (0, 0), microGain = 1,
               nonFigureCount = 0, fleeSide = 1,
               role = Runner, roleExpires = 8000, episode = Explore, episodeExpires = 2000,
               dna = \<lparr> wBase = 1, microGainMin = 6 / 10, microGainMax = 12 / 10,
                       feintChance = 1 / 10 \<rparr>,
               wCurrent = 1,
               anchorPosSx = 0, anchorPosSy = 0, anchorTargetSx = 0, anchorTargetSy = 0,
               anchorVelSx = 0, anchorVelSy = 0, anchorMoveStart = 0,
               anchorMoveDuration = 3000, anchorMoveEnd = 3000,
               frameAngle = 0, frameRate = 3 / 10000, amPhase = 0, fmPhase = 0,
               microGainEff = None, phaseFlipUntil = None, zigZagUntil = None \<rparr>"

definition exState :: state where
  "exState = \<lparr> cfg = exCfg, movers = [exMover], targets = [],
               playerX = 0, playerY = 0, rollAngle = 0,
               canvas = Some \<lparr> width = 1880, height = 1480 \<rparr>,
               heatMap = replicate 9 (replicate 16 0),
               roleCounts = (\<lambda>_. 0)(Runner := 1),
               episodeCounts = (\<lambda>_. 0)(Explore := 1),
               rngIx = 0 \<rparr>"

text \<open>
  The same mover carrying one hit, stamped at 1000 ms, and carrying two hits, stamped at
  1100 ms, with the escape boosts of the configured fractions.
\<close>

definition exHit1 :: state where
  "exHit1 = exState\<lparr>movers := [exMover\<lparr>hitUntil := 1140, hits := 1, lastHitTime := 1000,
                                        escapeBoost := 4 / 10\<rparr>]\<rparr>"

definition exHit2 :: state where
  "exHit2 = exState\<lparr>movers := [exMover\<lparr>hitUntil := 1240, hits := 2, lastHitTime := 1100,
                                        escapeBoost := 1\<rparr>]\<rparr>"

text \<open>The same states with regeneration on hit switched off.\<close>

definition noRegen :: "state \<Rightarrow> state" where
  "noRegen s = s\<lparr>cfg := (cfg s)\<lparr>regenOnHit := False\<rparr>\<rparr>"

section \<open>Predicates of the verification\<close>

text \<open>
  What a step of the mover loop leaves alone: the collection, the configuration and the
  external context (\<open>sameEnv\<close>), and the lifecycle fields of the mover it works on
  (\<open>life\<close>).
\<close>

definition sameEnv :: "state \<Rightarrow> state \<Rightarrow> bool" where
  "sameEnv a b =
     (movers a = movers b \<and> cfg a = cfg b \<and> canvas a = canvas b \<and> targets a = targets b
      \<and> playerX a = playerX b \<and> playerY a = playerY b \<and> rollAngle a = rollAngle b)"

definition life :: "mover \<Rightarrow> int \<times> real \<times> real \<times> bool" where
  "life m = (hits m, escapeBoost m, lastHitTime m, dead m)"

text \<open>The count \<^verbatim>\<open>ensureMoversCount\<close> reconciles the collection to.\<close>

definition wantedCount :: "state \<Rightarrow> int" where
  "wantedCount s = (if moversEnabled (cfg s)
                    then max 0 (min 5 (toInt32 (moversCount (cfg s)))) else 0)"



text \<open>
  The bound on the normalized components of a pattern: 1, and 1.35 for the rosette, whose
  secondary amplitude 0.35 adds to the unit orbit.
\<close>

definition patternBound :: "pattern \<Rightarrow> real" where
  "patternBound pn = (if pn = rosette then 135 / 100 else 1)"

text \<open>The example mover running a rosette.\<close>

definition exRosette :: mover where
  "exRosette = exMover\<lparr>microPattern := rosette\<rparr>"

text \<open>
  The bound on the offset before the soft clamp, as a multiple of the tier amplitude:
  rotating the pattern by the frame angle \<open>a\<close> stretches a component by at most
  \<open>\<bar>cos a\<bar> + \<bar>sin a\<bar>\<close>, and a zig-zag feint adds up to 3 percent.
\<close>

definition rawBound :: "mover \<Rightarrow> real" where
  "rawBound m =
     patternBound (microPattern m) * (\<bar>cos (frameAngle m)\<bar> + \<bar>sin (frameAngle m)\<bar>) + 3 / 100"

text \<open>
  An empty collection configured for three movers, and \<open>n\<close> successive respawns of the
  mover in slot \<open>i\<close> by \<^verbatim>\<open>respawnMover\<close>, which the engine exports.
\<close>

definition exEmpty3 :: state where
  "exEmpty3 = exState\<lparr> cfg := exCfg\<lparr>moversCount := 3\<rparr>, movers := [],
                        roleCounts := (\<lambda>_. 0), episodeCounts := (\<lambda>_. 0) \<rparr>"

fun respawnTimes :: "rng \<Rightarrow> real \<Rightarrow> nat \<Rightarrow> nat \<Rightarrow> state \<Rightarrow> error + state" where
  "respawnTimes rnd t i 0 s = Inr s"
| "respawnTimes rnd t i (Suc n) s =
     (case respawnMover rnd t i s of Inl e \<Rightarrow> Inl e | Inr s1 \<Rightarrow> respawnTimes rnd t i n s1)"

text \<open>The number of movers of a collection that hold a role, or an episode.\<close>

definition roleHolders :: "state \<Rightarrow> role \<Rightarrow> nat" where
  "roleHolders s rl = length (filter (\<lambda>m. role m = rl) (movers s))"

definition episodeHolders :: "state \<Rightarrow> episode \<Rightarrow> nat" where
  "episodeHolders s ep = length (filter (\<lambda>m. episode m = ep) (movers s))"

text \<open>Three movers are spawned into the empty collection, then the mover in slot 2 is
  respawned six times, every random draw being 0.\<close>

definition exRespawnRun :: "error + state" where
  "exRespawnRun = (case ensureMoversCount rnd0 0 exEmpty3 of Inl e \<Rightarrow> Inl e
                   | Inr s \<Rightarrow> respawnTimes rnd0 1000 2 6 s)"

text \<open>
  Cell by cell, the heat map \<open>a\<close> has the shape of \<open>b\<close> and at least its heat.
\<close>

definition heat_ge :: "real list list \<Rightarrow> real list list \<Rightarrow> bool" where
  "heat_ge a b =
     (length a = length b
      \<and> (\<forall>r < length b. length (a ! r) = length (b ! r)
             \<and> (\<forall>c < length (b ! r). b ! r ! c \<le> a ! r ! c)))"





text \<open>The per-frame constants \<^verbatim>\<open>updateMovers\<close> computes before its loops.\<close>

definition frameOf :: "real \<Rightarrow> real \<Rightarrow> real \<Rightarrow> canvas \<Rightarrow> state \<Rightarrow> frame" where
  "frameOf t dtN ps cv s1 =
     \<lparr> fNow = t, fDtN = dtN, fDtMs = dtN * (166667 / 10000),
       fPlayerSpeed = ps, fLimX = width cv / 2 - MARGIN, fLimY = height cv / 2 - MARGIN,
       fCos = cos (rollAngle s1), fSin = sin (rollAngle s1),
       fTargets = liveTargetsScr s1 (cos (rollAngle s1)) (sin (rollAngle s1)),
       fMoversScr = moversScr s1 (cos (rollAngle s1)) (sin (rollAngle s1)) \<rparr>"

section \<open>Auxiliary lemmas\<close>

text \<open>Comparisons with \<open>hypot\<close> are decided on the squares.\<close>

lemma hypot_ge_iff: "0 \<le> d \<Longrightarrow> (d \<le> hypot a b) = (d * d \<le> a * a + b * b)"
  unfolding hypot_def
  by (metis abs_of_nonneg real_sqrt_abs2 real_sqrt_le_iff)

lemma hypot_less_iff: "0 \<le> d \<Longrightarrow> (hypot a b < d) = (a * a + b * b < d * d)"
  using hypot_ge_iff[of d a b] by auto

lemma hypot_eq_0_iff: "(hypot a b = 0) = (a = 0 \<and> b = 0)"
  unfolding hypot_def by (simp add: sum_power2_eq_zero_iff power2_eq_square[symmetric])

lemma hypot_nonneg: "0 \<le> hypot a b"
  unfolding hypot_def by simp

text \<open>Recursion on a numeral fuel, for evaluation.\<close>

lemma spawnPosition_numeral:
  "spawnPosition rnd limX limY r (numeral v) k =
     (let sx = rand rnd k (- limX + r) (limX - r);
          sy = rand rnd (k + 1) (- limY + r) (limY - r)
      in if hypot sx sy \<ge> 90 \<or> pred_numeral v = 0 then (sx, sy, k + 2)
         else spawnPosition rnd limX limY r (pred_numeral v) (k + 2))"
  by (simp add: numeral_eq_Suc)

lemma pushMovers_numeral:
  "pushMovers rnd tNow (numeral v) s =
     (case spawnMoverInWindow rnd tNow s of
        Inl e \<Rightarrow> Inl e
      | Inr (nm, s1) \<Rightarrow>
          pushMovers rnd tNow (pred_numeral v) (s1\<lparr>movers := movers s1 @ [nm]\<rparr>))"
  by (simp add: numeral_eq_Suc)

subsection \<open>Spawning and respawning\<close>

lemma spawn_cases:
  "spawnMoverInWindow rnd t s = Inr (nm, s1) \<Longrightarrow>
     movers s1 = movers s \<and> cfg s1 = cfg s \<and> canvas s1 = canvas s
   \<and> targets s1 = targets s \<and> heatMap s1 = heatMap s
   \<and> playerX s1 = playerX s \<and> playerY s1 = playerY s \<and> rollAngle s1 = rollAngle s
   \<and> hits nm = 0 \<and> escapeBoost nm = 0 \<and> \<not> dead nm \<and> lastHitTime nm = 0
   \<and> anchorPosSx nm = 0 \<and> anchorPosSy nm = 0 \<and> anchorTargetSx nm = 0 \<and> anchorTargetSy nm = 0
   \<and> anchorVelSx nm = 0 \<and> anchorVelSy nm = 0 \<and> anchorMoveStart nm = t
   \<and> anchorMoveDuration nm = 3000 \<and> anchorMoveEnd nm = t + 3000
   \<and> microStart nm = t \<and> microBlendStart nm = t \<and> prevOffset nm = (0, 0)"
  by (simp add: spawnMoverInWindow_def Let_def split: option.splits prod.splits) auto

lemma spawn_total:
  "canvas s \<noteq> None \<Longrightarrow> \<exists>nm s1. spawnMoverInWindow rnd t s = Inr (nm, s1)"
  by (simp add: spawnMoverInWindow_def Let_def split: option.splits prod.splits)

lemma spawn_fails: "canvas s = None \<Longrightarrow> spawnMoverInWindow rnd t s = Inl TypeError"
  by (simp add: spawnMoverInWindow_def)

lemma respawn_cases:
  assumes "respawnMover rnd t i s = Inr s'"
  shows "i < length (movers s) \<and> length (movers s') = length (movers s)
   \<and> hits (movers s' ! i) = 0 \<and> escapeBoost (movers s' ! i) = 0 \<and> \<not> dead (movers s' ! i)
   \<and> lastHitTime (movers s' ! i) = 0
   \<and> anchorPosSx (movers s' ! i) = 0 \<and> anchorPosSy (movers s' ! i) = 0
   \<and> anchorTargetSx (movers s' ! i) = 0 \<and> anchorTargetSy (movers s' ! i) = 0
   \<and> anchorVelSx (movers s' ! i) = 0 \<and> anchorVelSy (movers s' ! i) = 0
   \<and> anchorMoveStart (movers s' ! i) = t \<and> anchorMoveEnd (movers s' ! i) = t + 3000
   \<and> microStart (movers s' ! i) = t \<and> microBlendStart (movers s' ! i) = t
   \<and> prevOffset (movers s' ! i) = (0, 0)
   \<and> (\<forall>j. j \<noteq> i \<longrightarrow> movers s' ! j = movers s ! j)
   \<and> cfg s' = cfg s \<and> canvas s' = canvas s \<and> playerX s' = playerX s \<and> playerY s' = playerY s
   \<and> targets s' = targets s \<and> heatMap s' = heatMap s \<and> rollAngle s' = rollAngle s"
proof -
  from assms obtain nm s1 where sp: "spawnMoverInWindow rnd t s = Inr (nm, s1)"
    by (auto simp: respawnMover_def split: sum.splits)
  note f = spawn_cases[OF sp]
  from assms sp f show ?thesis
    by (simp add: respawnMover_def Let_def split: if_splits) auto
qed

lemma respawn_total:
  assumes "canvas s \<noteq> None" and "i < length (movers s)"
  shows "\<exists>s'. respawnMover rnd t i s = Inr s'"
proof -
  from spawn_total[OF assms(1)] obtain nm s1
    where sp: "spawnMoverInWindow rnd t s = Inr (nm, s1)" by blast
  with spawn_cases[OF sp] assms(2) show ?thesis
    by (simp add: respawnMover_def Let_def)
qed

subsection \<open>What the steps of the mover loop leave alone\<close>


lemma sameEnv_refl [simp]: "sameEnv a a"
  by (simp add: sameEnv_def)

lemma sameEnv_trans: "sameEnv a b \<Longrightarrow> sameEnv b c \<Longrightarrow> sameEnv a c"
  by (simp add: sameEnv_def)

lemma chooseNewMicro_frame:
  "sameEnv (snd (chooseNewMicro rnd t ms)) (snd ms)
   \<and> life (fst (chooseNewMicro rnd t ms)) = life (fst ms)
   \<and> heatMap (snd (chooseNewMicro rnd t ms)) = heatMap (snd ms)
   \<and> roleCounts (snd (chooseNewMicro rnd t ms)) = roleCounts (snd ms)
   \<and> episodeCounts (snd (chooseNewMicro rnd t ms)) = episodeCounts (snd ms)
   \<and> role (fst (chooseNewMicro rnd t ms)) = role (fst ms)
   \<and> episode (fst (chooseNewMicro rnd t ms)) = episode (fst ms)
   \<and> anchorTargetSx (fst (chooseNewMicro rnd t ms)) = anchorTargetSx (fst ms)
   \<and> anchorTargetSy (fst (chooseNewMicro rnd t ms)) = anchorTargetSy (fst ms)"
  by (simp add: chooseNewMicro_def Let_def sameEnv_def life_def split: prod.splits)

lemma chooseNewAnchorTarget_frame:
  "sameEnv (snd (chooseNewAnchorTarget rnd t limX limY tgs i ms)) (snd ms)
   \<and> life (fst (chooseNewAnchorTarget rnd t limX limY tgs i ms)) = life (fst ms)
   \<and> roleCounts (snd (chooseNewAnchorTarget rnd t limX limY tgs i ms)) = roleCounts (snd ms)
   \<and> episodeCounts (snd (chooseNewAnchorTarget rnd t limX limY tgs i ms)) = episodeCounts (snd ms)
   \<and> role (fst (chooseNewAnchorTarget rnd t limX limY tgs i ms)) = role (fst ms)
   \<and> episode (fst (chooseNewAnchorTarget rnd t limX limY tgs i ms)) = episode (fst ms)"
  by (simp add: chooseNewAnchorTarget_def Let_def sameEnv_def life_def split: option.splits prod.splits)

lemma roleStep_frame:
  "sameEnv (snd (roleStep rnd t ms)) (snd ms)
   \<and> life (fst (roleStep rnd t ms)) = life (fst ms)
   \<and> heatMap (snd (roleStep rnd t ms)) = heatMap (snd ms)
   \<and> anchorTargetSx (fst (roleStep rnd t ms)) = anchorTargetSx (fst ms)
   \<and> anchorTargetSy (fst (roleStep rnd t ms)) = anchorTargetSy (fst ms)"
proof (cases "t > roleExpires (fst ms)")
  case False
  then show ?thesis by (simp add: roleStep_def Let_def)
next
  case True
  obtain rl rc k where p: "pickRole rnd ((roleCounts (snd ms))
      (role (fst ms) := max 0 (roleCounts (snd ms) (role (fst ms)) - 1))) (rngIx (snd ms)) = (rl, rc, k)"
    using prod_cases3 by blast
  show ?thesis using True p
    chooseNewMicro_frame[of rnd t "((fst ms)\<lparr>role := rl, roleExpires := t + rand rnd k 8000 16000\<rparr>,
       (snd ms)\<lparr>roleCounts := rc, rngIx := k + 1\<rparr>)"]
    by (simp add: roleStep_def Let_def sameEnv_def life_def)
qed

lemma episodeStep_frame:
  "sameEnv (snd (episodeStep rnd f i ms)) (snd ms)
   \<and> life (fst (episodeStep rnd f i ms)) = life (fst ms)"
proof (cases "fNow f > episodeExpires (fst ms)")
  case False
  then show ?thesis by (simp add: episodeStep_def Let_def)
next
  case True
  obtain ep ec k where p: "pickEpisode rnd ((episodeCounts (snd ms))
      (episode (fst ms) := max 0 (episodeCounts (snd ms) (episode (fst ms)) - 1))) (rngIx (snd ms)) = (ep, ec, k)"
    using prod_cases3 by blast
  define ms1 where "ms1 = ((fst ms)\<lparr>episode := ep, episodeExpires := fNow f + rand rnd k 2000 6000\<rparr>,
       (snd ms)\<lparr>episodeCounts := ec(ep := ec ep + 1), rngIx := k + 1\<rparr>)"
  define ms2 where "ms2 = chooseNewAnchorTarget rnd (fNow f) (fLimX f) (fLimY f) (fTargets f) i ms1"
  have e: "episodeStep rnd f i ms = chooseNewMicro rnd (fNow f) ms2"
    using True p by (simp add: episodeStep_def Let_def ms1_def ms2_def)
  have "sameEnv (snd ms1) (snd ms)" "life (fst ms1) = life (fst ms)"
    by (simp_all add: ms1_def sameEnv_def life_def)
  moreover have "sameEnv (snd ms2) (snd ms1)" "life (fst ms2) = life (fst ms1)"
    using chooseNewAnchorTarget_frame[of rnd "fNow f" "fLimX f" "fLimY f" "fTargets f" i ms1]
    by (simp_all add: ms2_def)
  moreover have "sameEnv (snd (chooseNewMicro rnd (fNow f) ms2)) (snd ms2)"
    "life (fst (chooseNewMicro rnd (fNow f) ms2)) = life (fst ms2)"
    using chooseNewMicro_frame[of rnd "fNow f" ms2] by simp_all
  ultimately show ?thesis unfolding e by (auto intro: sameEnv_trans)
qed

lemma retargetStep_frame:
  "sameEnv (snd (retargetStep rnd f i ms)) (snd ms)
   \<and> life (fst (retargetStep rnd f i ms)) = life (fst ms)"
  using chooseNewAnchorTarget_frame[of rnd "fNow f" "fLimX f" "fLimY f" "fTargets f" i ms]
  by (simp add: retargetStep_def)

lemma microStep_frame:
  "sameEnv (snd (microStep rnd t ms)) (snd ms)
   \<and> life (fst (microStep rnd t ms)) = life (fst ms)"
  using chooseNewMicro_frame[of rnd t ms] by (simp add: microStep_def)

lemma feintStep_frame:
  "sameEnv (snd (feintStep rnd t a ms)) (snd ms)
   \<and> life (fst (feintStep rnd t a ms)) = life (fst ms)"
  by (simp add: feintStep_def Let_def sameEnv_def life_def)

lemma life_simps [simp]:
  "life (anchorAdvance d m) = life m"
  "life (modulate f a m) = life m"
  "life (shortenMicro t a m) = life m"
  "life (shortenAnchor t a m) = life m"
  "life (snd (computeMicroOffset c m t lx ly)) = life m"
  "life (steer c f i os px py scr vs mo m) = life m"
  "life (m\<lparr>frameAngle := v\<rparr>) = life m"
  by (simp_all add: life_def anchorAdvance_def modulate_def shortenMicro_def shortenAnchor_def
      computeMicroOffset_def steer_def Let_def split_beta)

lemma scheduleStage_frame:
  "sameEnv (snd (scheduleStage rnd f i st)) st
   \<and> life (fst (scheduleStage rnd f i st)) = life (healStep (fNow f) (movers st ! i))"
proof -
  define ms0 where "ms0 = (healStep (fNow f) (movers st ! i), st)"
  define msa where "msa = roleStep rnd (fNow f) ms0"
  define msb where "msb = episodeStep rnd f i msa"
  define msc where "msc = (anchorAdvance (fDtMs f) (fst msb), snd msb)"
  define msd where "msd = retargetStep rnd f i msc"
  have e: "scheduleStage rnd f i st = microStep rnd (fNow f) msd"
    by (simp add: scheduleStage_def msd_def msc_def msb_def msa_def ms0_def Let_def)
  show ?thesis
    unfolding e
    using roleStep_frame[of rnd "fNow f" ms0] episodeStep_frame[of rnd f i msa]
      retargetStep_frame[of rnd f i msc] microStep_frame[of rnd "fNow f" msd]
    by (simp add: sameEnv_def msd_def msc_def msb_def msa_def ms0_def)
qed

lemma threatStage_frame:
  "sameEnv (snd (threatStage rnd f a ms)) (snd ms)
   \<and> life (fst (threatStage rnd f a ms)) = life (fst ms)"
  using feintStep_frame[of rnd "fNow f" a
      "(shortenAnchor (fNow f) a (shortenMicro (fNow f) a (modulate f a (fst ms))), snd ms)"]
  by (simp add: threatStage_def)

lemma motionStage_life [simp]: "life (motionStage c f i os px py scr vs m) = life m"
  by (simp add: motionStage_def split_beta)

lemma updateMover_frame:
  assumes "i < length (movers st)"
  shows "length (movers (updateMover rnd f i st)) = length (movers st)
    \<and> (\<forall>j. j \<noteq> i \<longrightarrow> movers (updateMover rnd f i st) ! j = movers st ! j)
    \<and> cfg (updateMover rnd f i st) = cfg st \<and> canvas (updateMover rnd f i st) = canvas st
    \<and> life (movers (updateMover rnd f i st) ! i) =
        (if dead (movers st ! i) then life (movers st ! i)
         else life (healStep (fNow f) (movers st ! i)))"
proof (cases "dead (movers st ! i)")
  case True
  then show ?thesis by (simp add: updateMover_def)
next
  case False
  define ms1 where "ms1 = scheduleStage rnd f i st"
  define ta where "ta = threatAlphaOf (cfg st) f
     (worldToScreen (mvX (fst ms1) - playerX st) (mvY (fst ms1) - playerY st) (fCos f) (fSin f))"
  define ms2 where "ms2 = threatStage rnd f ta ms1"
  define m4 where "m4 = motionStage (cfg st) f i (movers (snd ms2)) (playerX st) (playerY st)
     (worldToScreen (mvX (fst ms1) - playerX st) (mvY (fst ms1) - playerY st) (fCos f) (fSin f))
     (worldToScreen (vx (fst ms1)) (vy (fst ms1)) (fCos f) (fSin f)) (fst ms2)"
  have e: "updateMover rnd f i st = (snd ms2)\<lparr>movers := (movers (snd ms2))[i := m4]\<rparr>"
    using False by (simp add: updateMover_def Let_def m4_def ms2_def ta_def ms1_def)
  have l4: "life m4 = life (fst ms2)" by (simp add: m4_def)
  have "sameEnv (snd ms2) st" "life (fst ms2) = life (healStep (fNow f) (movers st ! i))"
    using scheduleStage_frame[of rnd f i st] threatStage_frame[of rnd f ta ms1]
    by (simp_all add: ms2_def ms1_def sameEnv_def)
  with e l4 False assms show ?thesis by (auto simp: sameEnv_def)
qed


subsection \<open>Reconciling the count\<close>

lemma pushMovers_cases:
  "pushMovers rnd t k s = Inr s' \<Longrightarrow>
     (\<exists>new. movers s' = movers s @ new \<and> length new = k
            \<and> (\<forall>m \<in> set new. hits m = 0 \<and> \<not> dead m \<and> anchorTargetSx m = 0 \<and> anchorTargetSy m = 0
                   \<and> anchorPosSx m = 0 \<and> anchorPosSy m = 0))
     \<and> cfg s' = cfg s \<and> canvas s' = canvas s \<and> heatMap s' = heatMap s \<and> targets s' = targets s
     \<and> playerX s' = playerX s \<and> playerY s' = playerY s \<and> rollAngle s' = rollAngle s"
proof (induction k arbitrary: s)
  case 0
  then show ?case by simp
next
  case (Suc k)
  from Suc.prems obtain nm s1 where sp: "spawnMoverInWindow rnd t s = Inr (nm, s1)"
    and rest: "pushMovers rnd t k (s1\<lparr>movers := movers s1 @ [nm]\<rparr>) = Inr s'"
    by (auto split: sum.splits)
  from Suc.IH[OF rest] spawn_cases[OF sp] show ?case
    by (auto simp: )
qed

lemma pushMovers_total:
  "canvas s \<noteq> None \<Longrightarrow> \<exists>s'. pushMovers rnd t k s = Inr s'"
proof (induction k arbitrary: s)
  case 0
  then show ?case by simp
next
  case (Suc k)
  from spawn_total[OF Suc.prems] obtain nm s1
    where sp: "spawnMoverInWindow rnd t s = Inr (nm, s1)" by blast
  with spawn_cases[OF sp] Suc.prems
  have "canvas (s1\<lparr>movers := movers s1 @ [nm]\<rparr>) \<noteq> None" by simp
  from Suc.IH[OF this] sp show ?case by simp
qed

lemma ensure_cases:
  assumes "ensureMoversCount rnd t s = Inr s1"
  shows "cfg s1 = (cfg s)\<lparr>moversCount := wantedCount s\<rparr> \<and> canvas s1 = canvas s
     \<and> heatMap s1 = heatMap s \<and> targets s1 = targets s
     \<and> playerX s1 = playerX s \<and> playerY s1 = playerY s \<and> rollAngle s1 = rollAngle s
     \<and> length (movers s1) = nat (wantedCount s)
     \<and> (\<forall>j. j < length (movers s1) \<longrightarrow>
            (if j < length (movers s) then movers s1 ! j = movers s ! j
             else hits (movers s1 ! j) = 0 \<and> \<not> dead (movers s1 ! j)
                  \<and> anchorTargetSx (movers s1 ! j) = 0 \<and> anchorTargetSy (movers s1 ! j) = 0
                  \<and> anchorPosSx (movers s1 ! j) = 0 \<and> anchorPosSy (movers s1 ! j) = 0))"
proof (cases "wantedCount s = 0")
  case True
  with assms show ?thesis by (auto simp: ensureMoversCount_def wantedCount_def Let_def)
next
  case False
  define s0 where "s0 = s\<lparr>cfg := (cfg s)\<lparr>moversCount := wantedCount s\<rparr>\<rparr>"
  from assms False obtain s2
    where p: "pushMovers rnd t (nat (wantedCount s) - length (movers s0)) s0 = Inr s2"
      and s1: "s1 = s2\<lparr>movers := take (nat (wantedCount s)) (movers s2)\<rparr>"
    by (auto simp: ensureMoversCount_def wantedCount_def Let_def s0_def split: sum.splits)
  from pushMovers_cases[OF p] obtain new where n: "movers s2 = movers s0 @ new"
    "length new = nat (wantedCount s) - length (movers s0)"
    "\<forall>m \<in> set new. hits m = 0 \<and> \<not> dead m \<and> anchorTargetSx m = 0 \<and> anchorTargetSy m = 0
         \<and> anchorPosSx m = 0 \<and> anchorPosSy m = 0"
    and fr: "cfg s2 = cfg s0" "canvas s2 = canvas s0" "heatMap s2 = heatMap s0"
      "targets s2 = targets s0" "playerX s2 = playerX s0" "playerY s2 = playerY s0"
      "rollAngle s2 = rollAngle s0"
    by blast
  have m0: "movers s0 = movers s" by (simp add: s0_def)
  have len: "length (movers s1) = nat (wantedCount s)"
    using n m0 by (simp add: s1)
  have el: "\<And>j. j < length (movers s1) \<Longrightarrow>
            (if j < length (movers s) then movers s1 ! j = movers s ! j
             else hits (movers s1 ! j) = 0 \<and> \<not> dead (movers s1 ! j)
                  \<and> anchorTargetSx (movers s1 ! j) = 0 \<and> anchorTargetSy (movers s1 ! j) = 0
                  \<and> anchorPosSx (movers s1 ! j) = 0 \<and> anchorPosSy (movers s1 ! j) = 0)"
  proof -
    fix j assume j: "j < length (movers s1)"
    show "?thesis j"
    proof (cases "j < length (movers s)")
      case True
      with j n m0 show ?thesis by (simp add: s1 nth_append)
    next
      case False
      with j n m0 len have "movers s1 ! j = new ! (j - length (movers s))"
        "j - length (movers s) < length new"
        by (auto simp: s1 nth_append)
      with n(3) False show ?thesis by (metis nth_mem)
    qed
  qed
  have env: "cfg s1 = (cfg s)\<lparr>moversCount := wantedCount s\<rparr>" "canvas s1 = canvas s"
    "heatMap s1 = heatMap s" "targets s1 = targets s"
    "playerX s1 = playerX s" "playerY s1 = playerY s" "rollAngle s1 = rollAngle s"
    using fr by (simp_all add: s1 s0_def)
  from env len el show ?thesis by blast
qed

lemma ensure_total:
  "canvas s \<noteq> None \<Longrightarrow> \<exists>s1. ensureMoversCount rnd t s = Inr s1"
  using pushMovers_total[of "s\<lparr>cfg := (cfg s)\<lparr>moversCount := wantedCount s\<rparr>\<rparr>" rnd t
      "nat (wantedCount s) - length (movers s)"]
  by (auto simp: ensureMoversCount_def wantedCount_def Let_def)

lemma ensure_disabled:
  "\<not> moversEnabled (cfg s) \<Longrightarrow>
     ensureMoversCount rnd t s = Inr (s\<lparr>cfg := (cfg s)\<lparr>moversCount := 0\<rparr>, movers := []\<rparr>)"
  by (simp add: ensureMoversCount_def)

subsection \<open>The mover loop\<close>

lemma loop_frame:
  assumes "distinct is" and "\<forall>i \<in> set is. i < length (movers st)"
  shows "length (movers (foldl (\<lambda>st i. updateMover rnd f i st) st is)) = length (movers st)
    \<and> cfg (foldl (\<lambda>st i. updateMover rnd f i st) st is) = cfg st
    \<and> canvas (foldl (\<lambda>st i. updateMover rnd f i st) st is) = canvas st
    \<and> (\<forall>j. life (movers (foldl (\<lambda>st i. updateMover rnd f i st) st is) ! j) =
            (if j \<in> set is \<and> \<not> dead (movers st ! j)
             then life (healStep (fNow f) (movers st ! j)) else life (movers st ! j)))"
  using assms
proof (induction "is" arbitrary: st)
  case Nil
  then show ?case by simp
next
  case (Cons i "is")
  let ?st1 = "updateMover rnd f i st"
  from Cons.prems have i: "i < length (movers st)" by simp
  note u = updateMover_frame[OF i, of rnd f]
  from Cons.prems u have pre: "distinct is" "\<forall>k \<in> set is. k < length (movers ?st1)"
    by auto
  note ih = Cons.IH[OF pre]
  have "\<And>j. life (movers (foldl (\<lambda>st i. updateMover rnd f i st) ?st1 is) ! j) =
            (if j \<in> set (i # is) \<and> \<not> dead (movers st ! j)
             then life (healStep (fNow f) (movers st ! j)) else life (movers st ! j))"
  proof -
    fix j
    show "?thesis j"
    proof (cases "j = i")
      case True
      with Cons.prems have "j \<notin> set is" by simp
      with ih u True show ?thesis by simp
    next
      case False
      with u have "movers ?st1 ! j = movers st ! j" by simp
      with ih False show ?thesis by simp
    qed
  qed
  with ih u show ?case by simp
qed

lemma warm_total:
  assumes "limY \<noteq> 0"
  shows "\<exists>h'. warmAnchors limX limY ms h = Inr h'"
proof (induction ms arbitrary: h)
  case Nil
  then show ?case by simp
next
  case (Cons mv ms)
  obtain k col where g: "getCellForPos (anchorPosSx mv) (anchorPosSy mv) limX limY = (Some k, col)"
    using assms by (simp add: getCellForPos_def cellIndex_def Let_def HEAT_ROWS_def)
  show ?case
  proof (cases col)
    case None
    with g Cons.IH[of h] show ?thesis by simp
  next
    case (Some c)
    with g Cons.IH[of h] Cons.IH[of "heatAdd h k c (HEATMAP_INCREMENT * (2 / 10))"]
    show ?thesis by simp
  qed
qed

text \<open>An update call that returns has either returned early or run the mover loop.\<close>

lemma update_unfold:
  assumes "updateMovers rnd t dtN ps s = Inr s'"
  shows "\<exists>s1. ensureMoversCount rnd t s = Inr s1
     \<and> (((\<not> moversEnabled (cfg s1) \<or> length (movers s1) = 0) \<and> s' = s1)
        \<or> (moversEnabled (cfg s1) \<and> length (movers s1) \<noteq> 0
           \<and> (\<exists>cv hm. canvas s1 = Some cv
                \<and> warmAnchors (width cv / 2 - MARGIN) (height cv / 2 - MARGIN) (movers s1)
                      (decayHeatMap (heatMap s1)) = Inr hm
                \<and> s' = foldl (\<lambda>st i. updateMover rnd (frameOf t dtN ps cv s1) i st)
                          (s1\<lparr>heatMap := hm\<rparr>) [0 ..< length (movers s1)])))"
proof -
  from assms obtain s1 where e: "ensureMoversCount rnd t s = Inr s1"
    by (auto simp: updateMovers_def split: sum.splits)
  show ?thesis
  proof (cases "\<not> moversEnabled (cfg s1) \<or> length (movers s1) = 0")
    case True
    with assms e show ?thesis by (auto simp: updateMovers_def)
  next
    case False
    with assms e obtain cv where cv: "canvas s1 = Some cv"
      by (auto simp: updateMovers_def split: option.splits)
    with assms e False obtain hm
      where "warmAnchors (width cv / 2 - MARGIN) (height cv / 2 - MARGIN) (movers s1)
               (decayHeatMap (heatMap s1)) = Inr hm"
      by (auto simp: updateMovers_def Let_def split: sum.splits)
    with assms e False cv show ?thesis
      by (auto simp: updateMovers_def Let_def frameOf_def)
  qed
qed

lemma update_cases:
  assumes "updateMovers rnd t dtN ps s = Inr s'"
  shows "\<exists>s1. ensureMoversCount rnd t s = Inr s1
     \<and> cfg s' = cfg s1 \<and> canvas s' = canvas s1 \<and> length (movers s') = length (movers s1)
     \<and> (\<forall>j. life (movers s' ! j) =
            (if j < length (movers s1) \<and> \<not> dead (movers s1 ! j)
             then life (healStep t (movers s1 ! j)) else life (movers s1 ! j)))"
proof -
  from update_unfold[OF assms] obtain s1 where e: "ensureMoversCount rnd t s = Inr s1"
    and c: "((\<not> moversEnabled (cfg s1) \<or> length (movers s1) = 0) \<and> s' = s1)
        \<or> (\<exists>cv hm. s' = foldl (\<lambda>st i. updateMover rnd (frameOf t dtN ps cv s1) i st)
                          (s1\<lparr>heatMap := hm\<rparr>) [0 ..< length (movers s1)])"
    by blast
  from c show ?thesis
  proof
    assume a: "(\<not> moversEnabled (cfg s1) \<or> length (movers s1) = 0) \<and> s' = s1"
    moreover from a ensure_cases[OF e] have "length (movers s1) = 0"
      by (auto simp: wantedCount_def)
    ultimately show ?thesis using e by auto
  next
    assume "\<exists>cv hm. s' = foldl (\<lambda>st i. updateMover rnd (frameOf t dtN ps cv s1) i st)
                          (s1\<lparr>heatMap := hm\<rparr>) [0 ..< length (movers s1)]"
    then obtain cv hm
      where s': "s' = foldl (\<lambda>st i. updateMover rnd (frameOf t dtN ps cv s1) i st)
                          (s1\<lparr>heatMap := hm\<rparr>) [0 ..< length (movers s1)]"
      by blast
    have "distinct [0 ..< length (movers s1)]"
      "\<forall>i \<in> set [0 ..< length (movers s1)]. i < length (movers (s1\<lparr>heatMap := hm\<rparr>))"
      by simp_all
    from loop_frame[OF this, of rnd "frameOf t dtN ps cv s1"] e show ?thesis
      unfolding s' by (simp add: frameOf_def)
  qed
qed

lemma update_total:
  assumes "canvas s = Some cv" and "height cv / 2 - MARGIN \<noteq> 0"
  shows "\<exists>s'. updateMovers rnd t dtN ps s = Inr s'"
proof -
  from assms(1) have "canvas s \<noteq> None" by simp
  from ensure_total[OF this] obtain s1 where e: "ensureMoversCount rnd t s = Inr s1" by blast
  from ensure_cases[OF e] assms(1) have cv: "canvas s1 = Some cv" by simp
  from warm_total[OF assms(2)] obtain hm
    where "warmAnchors (width cv / 2 - MARGIN) (height cv / 2 - MARGIN) (movers s1)
             (decayHeatMap (heatMap s1)) = Inr hm" by blast
  with e cv show ?thesis
    by (simp add: updateMovers_def Let_def)
qed

lemma toInt32_small: "\<lbrakk> - (2 ^ 31) \<le> h; h < 2 ^ 31 \<rbrakk> \<Longrightarrow> toInt32 h = h"
proof -
  assume a: "- (2 ^ 31) \<le> h" "h < 2 ^ 31"
  have "(h + 2 ^ 31) mod 2 ^ 32 = h + 2 ^ 31"
    by (rule mod_pos_pos_trivial) (use a in auto)
  then show ?thesis by (simp add: toInt32_def)
qed

lemmas ex_defs = exState_def exHit1_def exHit2_def noRegen_def exMover_def exCfg_def


section \<open>Hit test\<close>

text \<open>
  Claim C10.  The hit test returns the no-hit result \<open>- 1\<close> whenever movers are disabled
  in the configuration or the mover collection is empty, whatever the positions.
\<close>

theorem hitTest_none_when_disabled_or_empty:
  "\<not> moversEnabled (cfg s) \<or> movers s = [] \<Longrightarrow> hitTestMovers s = - 1"
  by (auto simp: hitTestMovers_def)

theorem hitTest_none_when_disabled_or_empty_witness:
  "\<not> moversEnabled (cfg (exState\<lparr>cfg := exCfg\<lparr>moversEnabled := False\<rparr>\<rparr>))
   \<and> hitTestMovers (exState\<lparr>cfg := exCfg\<lparr>moversEnabled := False\<rparr>\<rparr>) = - 1
   \<and> movers (exState\<lparr>movers := []\<rparr>) = []
   \<and> hitTestMovers (exState\<lparr>movers := []\<rparr>) = - 1
   \<and> hitTestMovers exState = 0"
  using hitTest_none_when_disabled_or_empty[of "exState\<lparr>cfg := exCfg\<lparr>moversEnabled := False\<rparr>\<rparr>"]
    hitTest_none_when_disabled_or_empty[of "exState\<lparr>movers := []\<rparr>"]
  by (simp add: exState_def exCfg_def exMover_def hitTestMovers_def hypot_less_iff)

subsection \<open>The wanted count and the lifecycle fields\<close>




lemma update_life:
  assumes u: "updateMovers rnd t dtN ps s = Inr s'"
    and i: "i < length (movers s)" "i < nat (wantedCount s)"
  shows "i < length (movers s')
     \<and> life (movers s' ! i) =
         (if dead (movers s ! i) then life (movers s ! i)
          else life (healStep t (movers s ! i)))"
proof -
  from update_cases[OF u] obtain s1 where e: "ensureMoversCount rnd t s = Inr s1"
    and len: "length (movers s') = length (movers s1)"
    and l: "\<And>j. life (movers s' ! j) =
            (if j < length (movers s1) \<and> \<not> dead (movers s1 ! j)
             then life (healStep t (movers s1 ! j)) else life (movers s1 ! j))"
    by blast
  from ensure_cases[OF e] i have "i < length (movers s1)" "movers s1 ! i = movers s ! i"
    by auto
  with len l[of i] show ?thesis by auto
qed

lemma wanted_ex: "wantedCount exHit1 = 1" "wantedCount exState = 1"
  by (simp_all add: wantedCount_def ex_defs toInt32_small)

subsection \<open>Shots\<close>

lemma shoot_throws: "shoot rnd t s = Inl TypeError"
  by (simp add: shoot_def assignNamespace_def)

lemma pushMovers_boost:
  "pushMovers rnd t k s = Inr s' \<Longrightarrow>
     \<exists>new. movers s' = movers s @ new \<and> (\<forall>m \<in> set new. escapeBoost m = 0)"
proof (induction k arbitrary: s)
  case 0
  then show ?case by simp
next
  case (Suc k)
  from Suc.prems obtain nm s1 where sp: "spawnMoverInWindow rnd t s = Inr (nm, s1)"
    and rest: "pushMovers rnd t k (s1\<lparr>movers := movers s1 @ [nm]\<rparr>) = Inr s'"
    by (auto split: sum.splits)
  from Suc.IH[OF rest] spawn_cases[OF sp] show ?case by auto
qed

lemma ensure_boost:
  assumes e: "ensureMoversCount rnd t s = Inr s1"
    and j: "j < length (movers s1)" "length (movers s) \<le> j"
  shows "escapeBoost (movers s1 ! j) = 0"
proof (cases "wantedCount s = 0")
  case True
  with e j show ?thesis by (auto simp: ensureMoversCount_def wantedCount_def Let_def)
next
  case False
  define s0 where "s0 = s\<lparr>cfg := (cfg s)\<lparr>moversCount := wantedCount s\<rparr>\<rparr>"
  from e False obtain s2
    where p: "pushMovers rnd t (nat (wantedCount s) - length (movers s0)) s0 = Inr s2"
      and s1: "s1 = s2\<lparr>movers := take (nat (wantedCount s)) (movers s2)\<rparr>"
    by (auto simp: ensureMoversCount_def wantedCount_def Let_def s0_def split: sum.splits)
  from pushMovers_boost[OF p] obtain new where n: "movers s2 = movers s0 @ new"
    "\<forall>m \<in> set new. escapeBoost m = 0" by blast
  have m0: "movers s0 = movers s" by (simp add: s0_def)
  from j n m0 have "movers s1 ! j = new ! (j - length (movers s))"
    "j - length (movers s) < length new"
    by (auto simp: s1 nth_append)
  with n(2) show ?thesis by (metis nth_mem)
qed

lemma update_unhit:
  assumes u: "updateMovers rnd t dtN ps s = Inr s'"
    and a: "\<forall>m \<in> set (movers s). hits m = 0 \<and> \<not> dead m"
  shows "\<forall>m \<in> set (movers s'). hits m = 0 \<and> \<not> dead m"
proof -
  from update_cases[OF u] obtain s1 where e: "ensureMoversCount rnd t s = Inr s1"
    and len: "length (movers s') = length (movers s1)"
    and l: "\<And>j. life (movers s' ! j) =
            (if j < length (movers s1) \<and> \<not> dead (movers s1 ! j)
             then life (healStep t (movers s1 ! j)) else life (movers s1 ! j))"
    by blast
  have one: "hits (movers s' ! j) = 0 \<and> \<not> dead (movers s' ! j)" if j: "j < length (movers s')" for j
  proof -
    from j len have j1: "j < length (movers s1)" by simp
    have "hits (movers s1 ! j) = 0 \<and> \<not> dead (movers s1 ! j)"
    proof (cases "j < length (movers s)")
      case True
      with ensure_cases[OF e] j1 have "movers s1 ! j = movers s ! j" by auto
      with a True show ?thesis by simp
    next
      case False
      with ensure_cases[OF e] j1 show ?thesis by auto
    qed
    from this j1 l[of j] show ?thesis by (simp add: life_def healStep_def)
  qed
  show ?thesis
  proof
    fix m assume "m \<in> set (movers s')"
    then obtain j where "j < length (movers s')" "m = movers s' ! j"
      by (auto simp: in_set_conv_nth)
    with one[of j] show "hits m = 0 \<and> \<not> dead m" by simp
  qed
qed

lemma update_boost:
  assumes u: "updateMovers rnd t dtN ps s = Inr s'"
    and a: "\<forall>m \<in> set (movers s). escapeBoost m = 0"
  shows "\<forall>m \<in> set (movers s'). escapeBoost m = 0"
proof -
  from update_cases[OF u] obtain s1 where e: "ensureMoversCount rnd t s = Inr s1"
    and len: "length (movers s') = length (movers s1)"
    and l: "\<And>j. life (movers s' ! j) =
            (if j < length (movers s1) \<and> \<not> dead (movers s1 ! j)
             then life (healStep t (movers s1 ! j)) else life (movers s1 ! j))"
    by blast
  have one: "escapeBoost (movers s' ! j) = 0" if j: "j < length (movers s')" for j
  proof -
    from j len have j1: "j < length (movers s1)" by simp
    have "escapeBoost (movers s1 ! j) = 0"
    proof (cases "j < length (movers s)")
      case True
      with ensure_cases[OF e] j1 have "movers s1 ! j = movers s ! j" by auto
      with a True show ?thesis by simp
    next
      case False
      with ensure_boost[OF e j1] show ?thesis by simp
    qed
    from this j1 l[of j] show ?thesis by (simp add: life_def healStep_def split: if_splits)
  qed
  show ?thesis
  proof
    fix m assume "m \<in> set (movers s')"
    then obtain j where "j < length (movers s')" "m = movers s' ! j"
      by (auto simp: in_set_conv_nth)
    with one[of j] show "escapeBoost m = 0" by simp
  qed
qed

lemma run_unhit:
  "\<forall>m \<in> set (movers s). hits m = 0 \<and> \<not> dead m \<Longrightarrow> runEvents rnd evs s = Inr s' \<Longrightarrow>
     \<forall>m \<in> set (movers s'). hits m = 0 \<and> \<not> dead m"
proof (induction evs arbitrary: s)
  case Nil
  then show ?case by simp
next
  case (Cons e evs)
  from Cons.prems(2) obtain s1 where a: "applyEvent rnd e s = Inr s1"
    and rest: "runEvents rnd evs s1 = Inr s'"
    by (auto split: sum.splits)
  have "\<forall>m \<in> set (movers s1). hits m = 0 \<and> \<not> dead m"
  proof (cases e)
    case (Update tNow dtN ps)
    with a have "updateMovers rnd tNow dtN ps s = Inr s1" by simp
    from update_unhit[OF this Cons.prems(1)] show ?thesis .
  next
    case (Shoot t)
    with a show ?thesis by (simp add: shoot_throws)
  qed
  from Cons.IH[OF this rest] show ?case .
qed

lemma run_boost:
  "\<forall>m \<in> set (movers s). escapeBoost m = 0 \<Longrightarrow> runEvents rnd evs s = Inr s' \<Longrightarrow>
     \<forall>m \<in> set (movers s'). escapeBoost m = 0"
proof (induction evs arbitrary: s)
  case Nil
  then show ?case by simp
next
  case (Cons e evs)
  from Cons.prems(2) obtain s1 where a: "applyEvent rnd e s = Inr s1"
    and rest: "runEvents rnd evs s1 = Inr s'"
    by (auto split: sum.splits)
  have "\<forall>m \<in> set (movers s1). escapeBoost m = 0"
  proof (cases e)
    case (Update tNow dtN ps)
    with a have "updateMovers rnd tNow dtN ps s = Inr s1" by simp
    from update_boost[OF this Cons.prems(1)] show ?thesis .
  next
    case (Shoot t)
    with a show ?thesis by (simp add: shoot_throws)
  qed
  from Cons.IH[OF this rest] show ?case .
qed

text \<open>One update of the example state returns a collection of one mover.\<close>

lemma ex_update_returns:
  "\<exists>s'. updateMovers rnd0 t dtN ps exState = Inr s' \<and> length (movers s') = 1"
proof -
  have cv: "canvas exState = Some \<lparr> width = 1880, height = 1480 \<rparr>"
    by (simp add: ex_defs)
  have "height \<lparr> width = 1880, height = 1480 \<rparr> / 2 - MARGIN \<noteq> 0" by (simp add: MARGIN_def)
  from update_total[OF cv this, of rnd0 t dtN ps] obtain s'
    where u: "updateMovers rnd0 t dtN ps exState = Inr s'" by blast
  from update_cases[OF u] obtain s1 where e: "ensureMoversCount rnd0 t exState = Inr s1"
    and f: "length (movers s') = length (movers s1)"
    by blast
  from ensure_cases[OF e] have "length (movers s1) = nat (wantedCount exState)" by simp
  with u f show ?thesis by (simp add: wanted_ex)
qed

section \<open>Exhaustion: respawn or death\<close>

text \<open>
  Claim C1 (the code departs from it).  The claim describes what the third registered hit
  does to a mover, with and without regeneration on hit.  \<^verbatim>\<open>shoot\<close>, the only place
  that registers hits, assigns \<^verbatim>\<open>state.crosshairFlashUntil\<close> on the namespace import
  before it tests for a hit, so every call throws a TypeError and registers nothing: a
  mover is never exhausted, respawned by a hit or marked dead.  Through every sequence of
  updates and shots that returns, unhit live movers stay unhit and live.
\<close>

theorem third_hit_throws:
  "shoot rnd t s = Inl TypeError
   \<and> ((\<forall>m \<in> set (movers s). hits m = 0 \<and> \<not> dead m) \<and> runEvents rnd evs s = Inr s'
        \<longrightarrow> (\<forall>m \<in> set (movers s'). hits m = 0 \<and> \<not> dead m))"
  using run_unhit[of s rnd evs s'] by (simp add: shoot_throws)

theorem third_hit_throws_witness:
  "hitTestMovers exHit2 = 0 \<and> hits (movers exHit2 ! 0) = 2 \<and> regenOnHit (cfg exHit2)
   \<and> shoot rnd0 1200 exHit2 = Inl TypeError
   \<and> hitTestMovers (noRegen exHit2) = 0 \<and> regenOnHit (cfg (noRegen exHit2)) = False
   \<and> shoot rnd0 1200 (noRegen exHit2) = Inl TypeError
   \<and> (\<exists>s'. runEvents rnd0 [Update 0 1 0] exState = Inr s'
            \<and> hits (movers s' ! 0) = 0 \<and> dead (movers s' ! 0) = False)"
proof -
  have a: "hitTestMovers exHit2 = 0" "hits (movers exHit2 ! 0) = 2" "regenOnHit (cfg exHit2)"
    "hitTestMovers (noRegen exHit2) = 0" "regenOnHit (cfg (noRegen exHit2)) = False"
    by (simp_all add: ex_defs hitTestMovers_def hypot_less_iff)
  from ex_update_returns[of 0 1 0] obtain s'
    where u: "updateMovers rnd0 0 1 0 exState = Inr s'" and len: "length (movers s') = 1"
    by blast
  then have r: "runEvents rnd0 [Update 0 1 0] exState = Inr s'" by simp
  have i: "\<forall>m \<in> set (movers exState). hits m = 0 \<and> \<not> dead m" by (simp add: ex_defs)
  from third_hit_throws[of rnd0 0 exState "[Update 0 1 0]" s'] i r
  have "\<forall>m \<in> set (movers s'). hits m = 0 \<and> \<not> dead m" by blast
  moreover from len have "movers s' ! 0 \<in> set (movers s')" by simp
  ultimately have "hits (movers s' ! 0) = 0" "dead (movers s' ! 0) = False" by auto
  with r have b: "\<exists>s'. runEvents rnd0 [Update 0 1 0] exState = Inr s'
            \<and> hits (movers s' ! 0) = 0 \<and> dead (movers s' ! 0) = False" by blast
  from third_hit_throws[of rnd0 1200 exHit2] third_hit_throws[of rnd0 1200 "noRegen exHit2"]
  have c: "shoot rnd0 1200 exHit2 = Inl TypeError"
    "shoot rnd0 1200 (noRegen exHit2) = Inl TypeError" by simp_all
  from a b c show ?thesis by (intro conjI)
qed

section \<open>Escape boost\<close>

text \<open>
  Claim C2 (the code departs from it).  The claim gives the escape boost after a
  registered hit as a function of the hit count.  The statements of \<^verbatim>\<open>shoot\<close> that
  would set it come after the assignment to the namespace import that throws, so a
  sequence of calls with a shot in it fails at the shot, and through every sequence that
  returns an escape boost of 0 stays 0: the first-hit fraction is never assigned.
\<close>

theorem escape_boost_never_raised:
  "runEvents rnd (Shoot t # evs) s = Inl TypeError
   \<and> ((\<forall>m \<in> set (movers s). escapeBoost m = 0) \<and> runEvents rnd evs s = Inr s'
        \<longrightarrow> (\<forall>m \<in> set (movers s'). escapeBoost m = 0))"
  using run_boost[of s rnd evs s'] by (simp add: shoot_throws)

theorem escape_boost_never_raised_witness:
  "hitTestMovers exState = 0 \<and> moversHit1Boost (cfg exState) = 4 / 10
   \<and> escapeBoost (movers exState ! 0) = 0
   \<and> runEvents rnd0 [Shoot 1000, Update 1016 1 0] exState = Inl TypeError
   \<and> (\<exists>s'. runEvents rnd0 [Update 1016 1 0] exState = Inr s'
            \<and> escapeBoost (movers s' ! 0) = 0)"
proof -
  have a: "hitTestMovers exState = 0" "moversHit1Boost (cfg exState) = 4 / 10"
    "escapeBoost (movers exState ! 0) = 0"
    by (simp_all add: ex_defs hitTestMovers_def hypot_less_iff)
  from ex_update_returns[of 1016 1 0] obtain s'
    where u: "updateMovers rnd0 1016 1 0 exState = Inr s'" and len: "length (movers s') = 1"
    by blast
  then have r: "runEvents rnd0 [Update 1016 1 0] exState = Inr s'" by simp
  have i: "\<forall>m \<in> set (movers exState). escapeBoost m = 0" by (simp add: ex_defs)
  note t = escape_boost_never_raised[of rnd0 1000 "[Update 1016 1 0]" exState s']
  from t i r have "\<forall>m \<in> set (movers s'). escapeBoost m = 0" by blast
  moreover from len have "movers s' ! 0 \<in> set (movers s')" by simp
  ultimately have "escapeBoost (movers s' ! 0) = 0" by auto
  with r have b: "\<exists>s'. runEvents rnd0 [Update 1016 1 0] exState = Inr s'
            \<and> escapeBoost (movers s' ! 0) = 0" by blast
  from t have c: "runEvents rnd0 [Shoot 1000, Update 1016 1 0] exState = Inl TypeError"
    by simp
  from a b c show ?thesis by (intro conjI)
qed

section \<open>Heal and hit monotonicity\<close>

text \<open>
  Claim C3, as amended.  With a canvas available whose arena has positive half-dimensions
  (the canvas is wider and higher than twice the margin), an update call returns and, for
  a mover that stays in the collection, never raises the hit count; when the mover is
  live, has hits, carries a non-zero last-hit stamp and strictly more than
  \<open>HEAL_INTERVAL_MS = 4000\<close> ms have elapsed since that stamp, the update resets its hit
  count and its escape boost to 0.
\<close>

theorem heal_after_interval:
  assumes "canvas s = Some cv"
    and "0 < width cv / 2 - MARGIN" and "0 < height cv / 2 - MARGIN"
    and "i < length (movers s)" and "i < nat (wantedCount s)"
  shows "\<exists>s'. updateMovers rnd tNow dtN ps s = Inr s' \<and> i < length (movers s')
     \<and> hits (movers s' ! i) \<le> hits (movers s ! i)
     \<and> (\<not> dead (movers s ! i) \<and> hits (movers s ! i) > 0 \<and> lastHitTime (movers s ! i) \<noteq> 0
          \<and> tNow - lastHitTime (movers s ! i) > HEAL_INTERVAL_MS
        \<longrightarrow> hits (movers s' ! i) = 0 \<and> escapeBoost (movers s' ! i) = 0)"
proof -
  from assms(3) have "height cv / 2 - MARGIN \<noteq> 0" by simp
  from update_total[OF assms(1) this] obtain s'
    where u: "updateMovers rnd tNow dtN ps s = Inr s'"
    by blast
  from update_life[OF u assms(4,5)] u show ?thesis
    by (auto simp: life_def healStep_def split: if_splits)
qed

theorem heal_after_interval_witness:
  "canvas exHit1 = Some \<lparr> width = 1880, height = 1480 \<rparr>
   \<and> 0 < width \<lparr> width = 1880, height = 1480 \<rparr> / 2 - MARGIN
   \<and> 0 < height \<lparr> width = 1880, height = 1480 \<rparr> / 2 - MARGIN
   \<and> (0::nat) < length (movers exHit1) \<and> 0 < nat (wantedCount exHit1)
   \<and> dead (movers exHit1 ! 0) = False \<and> hits (movers exHit1 ! 0) > 0
   \<and> lastHitTime (movers exHit1 ! 0) = 1000
   \<and> 5001 - lastHitTime (movers exHit1 ! 0) > HEAL_INTERVAL_MS
   \<and> (\<exists>s'. updateMovers rnd0 5001 1 0 exHit1 = Inr s' \<and> hits (movers s' ! 0) = 0
            \<and> escapeBoost (movers s' ! 0) = 0)"
proof -
  have h: "canvas exHit1 = Some \<lparr> width = 1880, height = 1480 \<rparr>"
    "0 < width \<lparr> width = 1880, height = 1480 \<rparr> / 2 - MARGIN"
    "0 < height \<lparr> width = 1880, height = 1480 \<rparr> / 2 - MARGIN"
    "(0::nat) < length (movers exHit1)"
    "0 < nat (wantedCount exHit1)" "dead (movers exHit1 ! 0) = False"
    "hits (movers exHit1 ! 0) > 0"
    "lastHitTime (movers exHit1 ! 0) = 1000"
    "5001 - lastHitTime (movers exHit1 ! 0) > HEAL_INTERVAL_MS"
    by (simp_all add: wanted_ex) (simp_all add: ex_defs HEAL_INTERVAL_MS_def MARGIN_def)
  from heal_after_interval[OF h(1,2,3,4,5), of rnd0 5001 1 0] h
  have "\<exists>s'. updateMovers rnd0 5001 1 0 exHit1 = Inr s' \<and> hits (movers s' ! 0) = 0
            \<and> escapeBoost (movers s' ! 0) = 0" by auto
  with h show ?thesis by (intro conjI)
qed

text \<open>
  The claim as stated (at least 4000 ms) fails at exactly 4000 ms: a mover whose last hit
  is stamped 1000 ms still has its hit and its boost after the update at 5000 ms.
\<close>

theorem heal_at_exactly_interval_counterexample:
  "5000 - lastHitTime (movers exHit1 ! 0) \<ge> HEAL_INTERVAL_MS
   \<and> \<not> dead (movers exHit1 ! 0)
   \<and> \<not> isl (updateMovers rnd0 5000 1 0 exHit1)
   \<and> hits (movers (projr (updateMovers rnd0 5000 1 0 exHit1)) ! 0) = 1
   \<and> escapeBoost (movers (projr (updateMovers rnd0 5000 1 0 exHit1)) ! 0) = 4 / 10"
proof -
  have h: "canvas exHit1 = Some \<lparr> width = 1880, height = 1480 \<rparr>"
    "height \<lparr> width = 1880, height = 1480 \<rparr> / 2 - MARGIN \<noteq> 0"
    "(0::nat) < length (movers exHit1)"
    "0 < nat (wantedCount exHit1)"
    by (simp_all add: wanted_ex) (simp_all add: ex_defs MARGIN_def)
  from update_total[OF h(1,2)] obtain s' where u: "updateMovers rnd0 5000 1 0 exHit1 = Inr s'"
    by blast
  from update_life[OF u h(3,4)] have "hits (movers s' ! 0) = 1"
    "escapeBoost (movers s' ! 0) = 4 / 10"
    by (simp_all add: life_def healStep_def ex_defs HEAL_INTERVAL_MS_def)
  with u show ?thesis by (simp add: ex_defs HEAL_INTERVAL_MS_def)
qed

section \<open>Disabled movers\<close>

text \<open>
  Claim C9.  An update call made while movers are disabled in the configuration returns
  the state with an empty mover collection (and a configured count of 0), whatever the
  collection held before.
\<close>

theorem update_disabled_empties:
  assumes "\<not> moversEnabled (cfg s)"
  shows "updateMovers rnd tNow dtN ps s
           = Inr (s\<lparr>cfg := (cfg s)\<lparr>moversCount := 0\<rparr>, movers := []\<rparr>)
       \<and> length (movers (projr (updateMovers rnd tNow dtN ps s))) = 0"
  using assms by (simp add: updateMovers_def ensure_disabled)

theorem update_disabled_empties_witness:
  "\<not> moversEnabled (cfg (exState\<lparr>cfg := exCfg\<lparr>moversEnabled := False\<rparr>\<rparr>))
   \<and> length (movers (exState\<lparr>cfg := exCfg\<lparr>moversEnabled := False\<rparr>\<rparr>)) = 1
   \<and> length (movers (projr (updateMovers rnd0 0 1 0
                               (exState\<lparr>cfg := exCfg\<lparr>moversEnabled := False\<rparr>\<rparr>)))) = 0"
  using update_disabled_empties[of "exState\<lparr>cfg := exCfg\<lparr>moversEnabled := False\<rparr>\<rparr>" rnd0 0 1 0]
  by (simp add: ex_defs)

section \<open>Missing canvas\<close>

text \<open>
  Claim C8.  The claim says that without a canvas the update and the count reconciliation
  return normally and change nothing.  The code reads \<^verbatim>\<open>canvas.width\<close> unguarded: with
  movers enabled, the update of a populated collection and the reconciliation of an empty
  one both throw.
\<close>

theorem canvas_missing_throws:
  "updateMovers rnd0 0 1 0 (exState\<lparr>canvas := None\<rparr>) = Inl TypeError
   \<and> ensureMoversCount rnd0 0 (exState\<lparr>canvas := None, movers := []\<rparr>) = Inl TypeError"
  by (simp add: updateMovers_def ensureMoversCount_def ex_defs toInt32_small spawn_fails Let_def)

theorem canvas_missing_throws_witness:
  "isl (updateMovers rnd0 0 1 0 (exState\<lparr>canvas := None\<rparr>))
   \<and> isl (ensureMoversCount rnd0 0 (exState\<lparr>canvas := None, movers := []\<rparr>))"
  using canvas_missing_throws by simp

subsection \<open>Heat\<close>



















subsection \<open>Heat only decays and grows\<close>

lemma heat_ge_refl [simp]: "heat_ge h h"
  by (simp add: heat_ge_def)




















section \<open>Heat decay\<close>




subsection \<open>Pattern values\<close>

lemma jsRem_range:
  assumes "0 \<le> a" and "0 < b"
  shows "0 \<le> jsRem a b \<and> jsRem a b < b"
proof -
  have q: "0 \<le> a / b" using assms by simp
  have f: "of_int \<lfloor>a / b\<rfloor> \<le> a / b" "a / b < of_int \<lfloor>a / b\<rfloor> + 1" by linarith+
  have ba: "b * (a / b) = a" using assms(2) by simp
  have "b * of_int \<lfloor>a / b\<rfloor> \<le> b * (a / b)"
    using f(1) assms(2) by (intro mult_left_mono) simp_all
  with ba have lo: "b * of_int \<lfloor>a / b\<rfloor> \<le> a" by simp
  have "b * (a / b) < b * (of_int \<lfloor>a / b\<rfloor> + 1)"
    using f(2) assms(2) by (intro mult_strict_left_mono) simp_all
  with ba have hi: "a < b * of_int \<lfloor>a / b\<rfloor> + b" by (simp add: algebra_simps)
  from lo hi q show ?thesis by (simp add: jsRem_def)
qed

lemma cycleOf_range:
  assumes "0 \<le> opt_elapsed opts"
  shows "0 \<le> cycleOf opts \<and> cycleOf opts \<le> 1"
proof (cases "opt_duration opts > 0")
  case False
  then show ?thesis by (simp add: cycleOf_def)
next
  case True
  from jsRem_range[OF assms True] True show ?thesis
    by (simp add: cycleOf_def)
qed

lemma unit_powr: "0 \<le> (c::real) \<Longrightarrow> c \<le> 1 \<Longrightarrow> 0 \<le> p \<Longrightarrow> 0 \<le> c powr p \<and> c powr p \<le> 1"
  by (simp add: powr_le1)

lemma scaled_trig:
  assumes "0 \<le> (r::real)" and "r \<le> b" and "\<bar>u\<bar> \<le> 1"
  shows "\<bar>u * r\<bar> \<le> b"
proof -
  have "\<bar>u * r\<bar> = \<bar>u\<bar> * r" using assms(1) by (simp add: abs_mult)
  also have "\<dots> \<le> 1 * r" using assms by (intro mult_right_mono) simp_all
  finally show ?thesis using assms(2) by simp
qed

lemma ease_range:
  assumes "0 \<le> (p::real)" and "p \<le> 1"
  shows "0 \<le> p * p * (3 - 2 * p) \<and> p * p * (3 - 2 * p) \<le> 1"
proof -
  have "1 - p * p * (3 - 2 * p) = (1 - p) * (1 - p) * (1 + 2 * p)" by (simp add: algebra_simps)
  moreover have "0 \<le> (1 - p) * (1 - p) * (1 + 2 * p)" using assms by simp
  ultimately have "p * p * (3 - 2 * p) \<le> 1" by linarith
  moreover have "0 \<le> p * p * (3 - 2 * p)" using assms by simp
  ultimately show ?thesis by simp
qed

lemma rosette_le:
  fixes a b :: real
  shows "\<bar>cos a + (35 / 100) * cos b\<bar> \<le> 135 / 100"
    and "\<bar>sin a - (35 / 100) * sin b\<bar> \<le> 135 / 100"
proof -
  have k: "\<bar>(35 / 100) * cos b\<bar> \<le> 35 / 100" "\<bar>(35 / 100) * sin b\<bar> \<le> 35 / 100"
    by (simp_all add: abs_mult)
  have "\<bar>cos a + (35 / 100) * cos b\<bar> \<le> \<bar>cos a\<bar> + \<bar>(35 / 100) * cos b\<bar>"
    by (rule abs_triangle_ineq)
  also have "\<dots> \<le> 1 + 35 / 100" using k(1) abs_cos_le_one[of a] by linarith
  finally show "\<bar>cos a + (35 / 100) * cos b\<bar> \<le> 135 / 100" by simp
  have "\<bar>sin a - (35 / 100) * sin b\<bar> \<le> \<bar>sin a\<bar> + \<bar>(35 / 100) * sin b\<bar>"
    by (rule abs_triangle_ineq4)
  also have "\<dots> \<le> 1 + 35 / 100" using k(2) abs_sin_le_one[of a] by linarith
  finally show "\<bar>sin a - (35 / 100) * sin b\<bar> \<le> 135 / 100" by simp
qed

lemma pattern_component_bound:
  assumes "0 \<le> opt_elapsed opts" and "opt_elapsed opts \<le> opt_duration opts"
  shows "\<bar>fst (MICRO_PATTERNS pn ts g opts)\<bar> \<le> patternBound pn
       \<and> \<bar>snd (MICRO_PATTERNS pn ts g opts)\<bar> \<le> patternBound pn"
proof (cases pn)
  case figure8
  then show ?thesis by (simp add: patternBound_def Let_def)
next
  case figure8Wide
  have "\<bar>sin (opt_w opts * g * (14 / 10) * ts + opt_phase2 opts) * (8 / 10)\<bar> \<le> 1"
    by (rule scaled_trig) simp_all
  with figure8Wide show ?thesis by (simp add: patternBound_def Let_def)
next
  case figure8Spiral
  define cyc where "cyc = (if opt_duration opts > 0
                   then opt_elapsed opts / opt_duration opts else 0)"
  define sc where "sc = 3 / 10 + 7 / 10 * cyc"
  have "0 \<le> cyc \<and> cyc \<le> 1"
    using assms by (simp add: cyc_def)
  then have "0 \<le> sc \<and> sc \<le> 1" unfolding sc_def by linarith
  then have "\<bar>sin (opt_w opts * g * ts + opt_phase1 opts) * sc\<bar> \<le> 1"
    "\<bar>sin (opt_w opts * g * 2 * ts + opt_phase2 opts) * sc\<bar> \<le> 1"
    by (auto intro!: scaled_trig)
  with figure8Spiral show ?thesis by (simp add: patternBound_def Let_def sc_def cyc_def)
next
  case spiral
  from cycleOf_range[OF assms(1)] have "0 \<le> cycleOf opts powr (9 / 10) \<and> cycleOf opts powr (9 / 10) \<le> 1"
    by (intro unit_powr) simp_all
  then have "\<bar>cos (opt_w opts * g * ts + opt_phase1 opts) * (cycleOf opts powr (9 / 10))\<bar> \<le> 1"
    "\<bar>sin (opt_w opts * g * ts + opt_phase1 opts) * (cycleOf opts powr (9 / 10))\<bar> \<le> 1"
    by (auto intro!: scaled_trig)
  with spiral show ?thesis by (simp add: patternBound_def Let_def)
next
  case spiralBurst
  from cycleOf_range[OF assms(1)] have "0 \<le> cycleOf opts * 3" by simp
  from jsRem_range[OF this, of 1] have "0 \<le> jsRem (cycleOf opts * 3) 1" "jsRem (cycleOf opts * 3) 1 \<le> 1"
    by simp_all
  then have "0 \<le> jsRem (cycleOf opts * 3) 1 powr (7 / 10)
          \<and> jsRem (cycleOf opts * 3) 1 powr (7 / 10) \<le> 1"
    by (intro unit_powr) simp_all
  then have "\<bar>cos (opt_w opts * g * ts + opt_phase1 opts) * (jsRem (cycleOf opts * 3) 1 powr (7 / 10))\<bar> \<le> 1"
    "\<bar>sin (opt_w opts * g * ts + opt_phase1 opts) * (jsRem (cycleOf opts * 3) 1 powr (7 / 10))\<bar> \<le> 1"
    by (auto intro!: scaled_trig)
  with spiralBurst show ?thesis by (simp add: patternBound_def Let_def)
next
  case rosette
  with rosette_le[of "opt_w opts * g * ts + opt_phase1 opts"
      "37 / 10 * (opt_w opts * g) * ts + opt_phase2 opts"]
  show ?thesis by (simp add: patternBound_def Let_def)
next
  case swerveStop
  show ?thesis
  proof (cases "cycleOf opts < 35 / 100")
    case True
    with swerveStop show ?thesis by (simp add: patternBound_def Let_def)
  next
    case False
    define p where "p = (cycleOf opts - 35 / 100) / (65 / 100)"
    from False cycleOf_range[OF assms(1)] have "0 \<le> p" "p \<le> 1" by (simp_all add: p_def)
    from ease_range[OF this] have e: "0 \<le> p * p * (3 - 2 * p)" "p * p * (3 - 2 * p) \<le> 1"
      by simp_all
    have "\<bar>cos (opt_w opts * g * ts * (12 / 10)) * (p * p * (3 - 2 * p))\<bar> \<le> 1"
      using e by (intro scaled_trig) simp_all
    moreover have "\<bar>sin (opt_w opts * g * ts * (12 / 10)) * (1 / 2) * (p * p * (3 - 2 * p))\<bar> \<le> 1"
    proof -
      have "\<bar>sin (opt_w opts * g * ts * (12 / 10)) * ((1 / 2) * (p * p * (3 - 2 * p)))\<bar> \<le> 1"
        using e by (intro scaled_trig) simp_all
      then show ?thesis by (simp add: mult.assoc)
    qed
    ultimately show ?thesis using swerveStop False
      by (simp add: patternBound_def Let_def p_def)
  qed
qed


lemma rot_bound:
  fixes x y a B :: real
  assumes "\<bar>x\<bar> \<le> B" and "\<bar>y\<bar> \<le> B"
  shows "\<bar>x * cos a - y * sin a\<bar> \<le> B * (\<bar>cos a\<bar> + \<bar>sin a\<bar>)"
    and "\<bar>x * sin a + y * cos a\<bar> \<le> B * (\<bar>cos a\<bar> + \<bar>sin a\<bar>)"
proof -
  have xc: "\<bar>x * cos a\<bar> \<le> B * \<bar>cos a\<bar>" "\<bar>x * sin a\<bar> \<le> B * \<bar>sin a\<bar>"
    using assms(1) by (simp_all add: abs_mult mult_right_mono)
  have yc: "\<bar>y * cos a\<bar> \<le> B * \<bar>cos a\<bar>" "\<bar>y * sin a\<bar> \<le> B * \<bar>sin a\<bar>"
    using assms(2) by (simp_all add: abs_mult mult_right_mono)
  have "\<bar>x * cos a - y * sin a\<bar> \<le> \<bar>x * cos a\<bar> + \<bar>y * sin a\<bar>" by (rule abs_triangle_ineq4)
  with xc(1) yc(2) show "\<bar>x * cos a - y * sin a\<bar> \<le> B * (\<bar>cos a\<bar> + \<bar>sin a\<bar>)"
    by (simp add: algebra_simps)
  have "\<bar>x * sin a + y * cos a\<bar> \<le> \<bar>x * sin a\<bar> + \<bar>y * cos a\<bar>" by (rule abs_triangle_ineq)
  with xc(2) yc(1) show "\<bar>x * sin a + y * cos a\<bar> \<le> B * (\<bar>cos a\<bar> + \<bar>sin a\<bar>)"
    by (simp add: algebra_simps)
qed

lemma zig_bound:
  fixes r amp zz R :: real
  assumes "\<bar>r\<bar> \<le> R" and "\<bar>zz\<bar> \<le> 1 / 10"
  shows "\<bar>r * amp\<bar> \<le> (R + 3 / 100) * \<bar>amp\<bar>"
    and "\<bar>- (r * amp)\<bar> \<le> (R + 3 / 100) * \<bar>amp\<bar>"
    and "\<bar>r * amp + zz * amp * (3 / 10)\<bar> \<le> (R + 3 / 100) * \<bar>amp\<bar>"
    and "\<bar>- (r * amp) + zz * amp * (3 / 10)\<bar> \<le> (R + 3 / 100) * \<bar>amp\<bar>"
proof -
  have ra: "\<bar>r * amp\<bar> \<le> R * \<bar>amp\<bar>"
    using assms(1) by (simp add: abs_mult mult_right_mono)
  have "\<bar>zz * amp * (3 / 10)\<bar> = \<bar>zz\<bar> * \<bar>amp\<bar> * (3 / 10)" by (simp add: abs_mult)
  also have "\<dots> \<le> (1 / 10) * \<bar>amp\<bar> * (3 / 10)"
    using assms(2) by (intro mult_right_mono) simp_all
  finally have za: "\<bar>zz * amp * (3 / 10)\<bar> \<le> (3 / 100) * \<bar>amp\<bar>" by simp
  have nn: "0 \<le> (3 / 100) * \<bar>amp\<bar>" by simp
  from ra nn show a1: "\<bar>r * amp\<bar> \<le> (R + 3 / 100) * \<bar>amp\<bar>" by (simp add: algebra_simps)
  then show "\<bar>- (r * amp)\<bar> \<le> (R + 3 / 100) * \<bar>amp\<bar>" by simp
  have "\<bar>r * amp + zz * amp * (3 / 10)\<bar> \<le> \<bar>r * amp\<bar> + \<bar>zz * amp * (3 / 10)\<bar>"
    by (rule abs_triangle_ineq)
  with ra za show "\<bar>r * amp + zz * amp * (3 / 10)\<bar> \<le> (R + 3 / 100) * \<bar>amp\<bar>"
    by (simp add: algebra_simps)
  have "\<bar>- (r * amp) + zz * amp * (3 / 10)\<bar> \<le> \<bar>- (r * amp)\<bar> + \<bar>zz * amp * (3 / 10)\<bar>"
    by (rule abs_triangle_ineq)
  with ra za show "\<bar>- (r * amp) + zz * amp * (3 / 10)\<bar> \<le> (R + 3 / 100) * \<bar>amp\<bar>"
    by (simp add: algebra_simps)
qed

lemma raw_offset_bound:
  assumes "0 \<le> t - microStart m" and "t - microStart m \<le> orElse (microDuration m) 1"
  shows "\<bar>fst (microRawOffset c m t limX limY)\<bar>
           \<le> rawBound m * \<bar>fst (microAmplitude (microPattern m) (microTier m) limX limY)\<bar>
       \<and> \<bar>snd (microRawOffset c m t limX limY)\<bar>
           \<le> rawBound m * \<bar>snd (microAmplitude (microPattern m) (microTier m) limX limY)\<bar>"
proof -
  define pt where "pt = MICRO_PATTERNS (microPattern m) ((t - microStart m) * (1 / 1000))
     (orElse (case microGainEff m of None \<Rightarrow> microGain m | Some ge \<Rightarrow> ge) 1) (microOpts c m t)"
  define B where "B = patternBound (microPattern m)"
  define a where "a = frameAngle m"
  define R where "R = B * (\<bar>cos a\<bar> + \<bar>sin a\<bar>)"
  define zz where "zz = sin ((t - microStart m) * (1 / 1000) * 25) * (1 / 10)"
  define ampX where "ampX = fst (microAmplitude (microPattern m) (microTier m) limX limY)"
  define ampY where "ampY = snd (microAmplitude (microPattern m) (microTier m) limX limY)"
  have o: "0 \<le> opt_elapsed (microOpts c m t)"
    "opt_elapsed (microOpts c m t) \<le> opt_duration (microOpts c m t)"
    using assms by (simp_all add: microOpts_def)
  from pattern_component_bound[OF o] have p: "\<bar>fst pt\<bar> \<le> B" "\<bar>snd pt\<bar> \<le> B"
    by (simp_all add: pt_def B_def)
  note r = rot_bound[OF p, of a, folded R_def]
  have z: "\<bar>zz\<bar> \<le> 1 / 10" by (simp add: zz_def abs_mult)
  note zx = zig_bound[OF r(1) z, of ampX]
  note zy = zig_bound[OF r(2) z, of ampY]
  have rb: "rawBound m = R + 3 / 100" by (simp add: rawBound_def R_def B_def a_def)
  have e: "microRawOffset c m t limX limY =
     (if activeUntil (zigZagUntil m) t
      then ((if activeUntil (phaseFlipUntil m) t then - ((fst pt * cos a - snd pt * sin a) * ampX)
             else (fst pt * cos a - snd pt * sin a) * ampX) + zz * ampX * (3 / 10),
            (fst pt * sin a + snd pt * cos a) * ampY + zz * ampY * (3 / 10))
      else ((if activeUntil (phaseFlipUntil m) t then - ((fst pt * cos a - snd pt * sin a) * ampX)
             else (fst pt * cos a - snd pt * sin a) * ampX),
            (fst pt * sin a + snd pt * cos a) * ampY))"
    by (simp add: microRawOffset_def Let_def split_beta pt_def a_def zz_def ampX_def ampY_def)
  show ?thesis
    unfolding e rb ampX_def[symmetric] ampY_def[symmetric]
    using zx zy by (simp split: if_splits)
qed

lemma ex_rosette_value:
  "MICRO_PATTERNS rosette 0 1 (microOpts exCfg exRosette 0) = (135 / 100, 0)"
  by (simp add: Let_def microOpts_def exRosette_def ex_defs orElse_def)

lemma ex_rosette_offset: "microRawOffset exCfg exRosette 0 800 600 = (162, 0)"
  by (simp add: microRawOffset_def microOpts_def exRosette_def ex_defs Let_def orElse_def
      microAmplitude_def activeUntil_def)

section \<open>Offset bound\<close>

text \<open>
  Claim C6, as amended.  While a pattern is within its lifetime (\<open>0 \<le> elapsed \<le> duration\<close>),
  for all phases and gains, every pattern function returns normalized components of
  magnitude at most 1, and at most 1.35 for the rosette; and the offset after frame
  rotation, tier scaling and feint effects, before the soft radial clamp, has each
  component's magnitude at most \<open>rawBound\<close> times the tier's amplitude (its configured
  fraction of the relevant half-dimension), where \<open>rawBound\<close> is the pattern's bound times
  \<open>\<bar>cos a\<bar> + \<bar>sin a\<bar>\<close> for the frame angle \<open>a\<close>, plus 0.03.
\<close>

theorem pattern_offset_bounds:
  "(0 \<le> opt_elapsed opts \<and> opt_elapsed opts \<le> opt_duration opts \<longrightarrow>
      \<bar>fst (MICRO_PATTERNS pn ts g opts)\<bar> \<le> patternBound pn
      \<and> \<bar>snd (MICRO_PATTERNS pn ts g opts)\<bar> \<le> patternBound pn)
   \<and> (0 \<le> t - microStart m \<and> t - microStart m \<le> orElse (microDuration m) 1 \<longrightarrow>
      \<bar>fst (microRawOffset c m t limX limY)\<bar>
           \<le> rawBound m * \<bar>fst (microAmplitude (microPattern m) (microTier m) limX limY)\<bar>
       \<and> \<bar>snd (microRawOffset c m t limX limY)\<bar>
           \<le> rawBound m * \<bar>snd (microAmplitude (microPattern m) (microTier m) limX limY)\<bar>)"
  using pattern_component_bound[of opts pn ts g] raw_offset_bound[of t m c limX limY]
  by blast

theorem pattern_offset_bounds_witness:
  "0 \<le> opt_elapsed (microOpts exCfg exRosette 0)
   \<and> opt_elapsed (microOpts exCfg exRosette 0) \<le> opt_duration (microOpts exCfg exRosette 0)
   \<and> \<bar>fst (MICRO_PATTERNS rosette 0 1 (microOpts exCfg exRosette 0))\<bar> \<le> patternBound rosette
   \<and> \<bar>snd (MICRO_PATTERNS rosette 0 1 (microOpts exCfg exRosette 0))\<bar> \<le> patternBound rosette
   \<and> (0::real) \<le> 0 - microStart exRosette
   \<and> 0 - microStart exRosette \<le> orElse (microDuration exRosette) 1
   \<and> rawBound exRosette = 138 / 100
   \<and> \<bar>fst (microRawOffset exCfg exRosette 0 800 600)\<bar>
        \<le> rawBound exRosette * \<bar>fst (microAmplitude (microPattern exRosette) (microTier exRosette) 800 600)\<bar>
   \<and> \<bar>snd (microRawOffset exCfg exRosette 0 800 600)\<bar>
        \<le> rawBound exRosette * \<bar>snd (microAmplitude (microPattern exRosette) (microTier exRosette) 800 600)\<bar>"
proof -
  have h: "0 \<le> opt_elapsed (microOpts exCfg exRosette 0)"
    "opt_elapsed (microOpts exCfg exRosette 0) \<le> opt_duration (microOpts exCfg exRosette 0)"
    "(0::real) \<le> 0 - microStart exRosette"
    "0 - microStart exRosette \<le> orElse (microDuration exRosette) 1"
    "rawBound exRosette = 138 / 100"
    by (simp_all add: microOpts_def exRosette_def ex_defs orElse_def rawBound_def patternBound_def)
  from pattern_offset_bounds[of "microOpts exCfg exRosette 0" rosette 0 1 0 exRosette exCfg 800 600] h
  show ?thesis by blast
qed

text \<open>
  The claim as stated fails for the rosette: at local time 0 with zero phases its first
  component is 1.35, and the scaled offset of the small tier in an arena of half-width 800
  is 162, above the tier amplitude of 120.
\<close>

theorem rosette_exceeds_unit_counterexample:
  "fst (MICRO_PATTERNS rosette 0 1 (microOpts exCfg exRosette 0)) = 135 / 100
   \<and> \<not> \<bar>fst (MICRO_PATTERNS rosette 0 1 (microOpts exCfg exRosette 0))\<bar> \<le> 1
   \<and> fst (microRawOffset exCfg exRosette 0 800 600) = 162
   \<and> TIER_SCALE (microTier exRosette) * 800 = 120
   \<and> \<not> \<bar>fst (microRawOffset exCfg exRosette 0 800 600)\<bar>
         \<le> TIER_SCALE (microTier exRosette) * 800"
proof -
  have t: "TIER_SCALE (microTier exRosette) * 800 = 120"
    by (simp add: exRosette_def ex_defs)
  show ?thesis unfolding ex_rosette_value ex_rosette_offset t by simp
qed

subsection \<open>Role and episode pools\<close>

lemma respawnTimes_numeral:
  "respawnTimes rnd t i (numeral v) s =
     (case respawnMover rnd t i s of Inl e \<Rightarrow> Inl e
      | Inr s1 \<Rightarrow> respawnTimes rnd t i (pred_numeral v) s1)"
  by (simp add: numeral_eq_Suc)

lemmas spawn_eval = ensureMoversCount_def spawnMoverInWindow_def pickRole_def pickEpisode_def
  pickCategory_def Let_def toInt32_small MARGIN_def clamp_def rand_def screenToWorld_def
  ROLE_NAMES_def EPISODE_NAMES_def ROLE_MAX_COUNT_def EPISODE_MAX_COUNT_def
  hypot_ge_iff hypot_eq_0_iff hypot_less_iff pickCumulative_def MICRO_PATTERN_NAMES_def orOne_def
  MICRO_MIN_MS_def MICRO_MAX_MS_def respawnMover_def spawnPosition_numeral pushMovers_numeral
  respawnTimes_numeral

lemma ex_respawn_run:
  "map_sum id (\<lambda>s. (map role (movers s), map (roleCounts s) ROLE_NAMES,
                      map episode (movers s), map (episodeCounts s) EPISODE_NAMES)) exRespawnRun
   = Inr ([Runner, Runner, Runner], [4, 2, 2, 1], [Explore, Explore, Explore], [4, 2, 2, 1])"
  unfolding exRespawnRun_def by (simp add: spawn_eval rnd0_def exEmpty3_def ex_defs)

text \<open>Claim C4 (the code departs from it): the pools are meant to cap every role and every
  episode at two movers and to count the movers that hold each category.  \<open>respawnMover\<close>
  counts the replacement twice (once in \<open>pickRole\<close> / \<open>pickEpisode\<close>, called by
  \<open>spawnMoverInWindow\<close>, and once more itself), so the pools run ahead of the holders, reach the
  cap everywhere, and the fallback hands out a category that two movers already hold: after three
  spawns and six respawns of slot 2 all three movers are Runners in the Explore episode, and both
  pools say 4.\<close>

theorem pools_overcount_after_respawn:
  "\<exists>s. exRespawnRun = Inr s \<and> length (movers s) = 3
     \<and> roleHolders s Runner = 3 \<and> roleCounts s Runner = 4
     \<and> episodeHolders s Explore = 3 \<and> episodeCounts s Explore = 4"
proof -
  obtain s where s: "exRespawnRun = Inr s"
  proof (cases exRespawnRun)
    case (Inl e)
    show ?thesis using ex_respawn_run unfolding Inl by simp
  qed
  have "map role (movers s) = [Runner, Runner, Runner]"
    and "map episode (movers s) = [Explore, Explore, Explore]"
    and "map (roleCounts s) ROLE_NAMES = [4, 2, 2, 1]"
    and "map (episodeCounts s) EPISODE_NAMES = [4, 2, 2, 1]"
    using ex_respawn_run by (simp_all add: s)
  then have "length (map role (movers s)) = 3"
    and "length (filter (\<lambda>r. r = Runner) (map role (movers s))) = 3"
    and "length (filter (\<lambda>e. e = Explore) (map episode (movers s))) = 3"
    and "roleCounts s Runner = 4" and "episodeCounts s Explore = 4"
    by (simp_all add: ROLE_NAMES_def EPISODE_NAMES_def)
  with s show ?thesis
    unfolding roleHolders_def episodeHolders_def filter_map comp_def by (intro exI [of _ s]) simp
qed

end
